theory Spec2Isabelle
  imports Complex_Main "HOL-Library.Word"
begin

section \<open>Fixed-point coordinates (DataStructures/Coordinate.cpp)\<close>

text \<open>
  A \<open>FixedPointCoordinate\<close> holds two C++ \<open>int\<close> fields, \<open>lat\<close> and \<open>lon\<close>,
  read here as 32-bit two's complement words (\<open>sint\<close> gives the signed reading).
\<close>

record FixedPointCoordinate =
  lat :: "32 word"
  lon :: "32 word"

text \<open>
  Modelled from the spec: the constant \<open>COORDINATE_PRECISION\<close> is declared in
  \<open>osrm/Coordinate.h\<close>, which is missing from the sources; the specification gives the
  precision factor as 1,000,000. It is a floating constant; its floating type (\<open>float\<close> or
  \<open>double\<close>) is a parameter of the platform below.
\<close>

definition COORDINATE_PRECISION :: int where
  "COORDINATE_PRECISION = 1000000"

text \<open>\<open>std::numeric_limits<int>::min()\<close> for a 32-bit \<open>int\<close>.\<close>

definition int_min :: "32 word" where
  "int_min = - (2 ^ 31)"

text \<open>The default constructor (lines 42--45) and \<open>Reset\<close> (lines 65--69).\<close>

definition default_coordinate :: FixedPointCoordinate where
  "default_coordinate = \<lparr> lat = int_min, lon = int_min \<rparr>"

definition Reset :: "FixedPointCoordinate \<Rightarrow> FixedPointCoordinate" where
  "Reset c = c \<lparr> lat := int_min, lon := int_min \<rparr>"

text \<open>\<open>isSet\<close> (lines 70--73).\<close>

definition isSet :: "FixedPointCoordinate \<Rightarrow> bool" where
  "isSet c = ((int_min \<noteq> lat c) \<and> (int_min \<noteq> lon c))"

text \<open>\<open>operator==\<close> (lines 83--86).\<close>

definition coordinate_eq :: "FixedPointCoordinate \<Rightarrow> FixedPointCoordinate \<Rightarrow> bool" where
  "coordinate_eq c other = (lat c = lat other \<and> lon c = lon other)"

section \<open>Integer vectors (osmium/area/detail/vector.hpp)\<close>

text \<open>
  \<open>struct vec\<close> holds two \<open>int64_t\<close> fields; arithmetic is taken modulo \<open>2 ^ 64\<close>, which is
  what the operations of \<open>64 word\<close> compute.
\<close>

record vec =
  x :: "64 word"
  y :: "64 word"

text \<open>\<open>operator+\<close> (lines 76--78) and \<open>operator-\<close> (lines 81--83).\<close>

definition vec_add :: "vec \<Rightarrow> vec \<Rightarrow> vec" where
  "vec_add a b = \<lparr> x = x a + x b, y = y a + y b \<rparr>"

definition vec_sub :: "vec \<Rightarrow> vec \<Rightarrow> vec" where
  "vec_sub a b = \<lparr> x = x a - x b, y = y a - y b \<rparr>"

text \<open>The cross product, \<open>operator*(const vec&, const vec&)\<close> (lines 86--88).\<close>

definition vec_cross :: "vec \<Rightarrow> vec \<Rightarrow> 64 word" where
  "vec_cross a b = x a * y b - y a * x b"

text \<open>\<open>operator==\<close> (lines 101--103).\<close>

definition vec_eq :: "vec \<Rightarrow> vec \<Rightarrow> bool" where
  "vec_eq a b = (x a = x b \<and> y a = y b)"

section \<open>Floating-point values\<close>

text \<open>
  The C++ types \<open>float\<close> and \<open>double\<close> are read as IEEE 754 binary formats. A value is a
  finite rational number (\<open>Fin 0\<close> is the positive zero), the negative zero, an infinity
  or a not-a-number. The special-value rules of the arithmetic operations are fixed
  here; the rounding of a finite non-zero exact result into the format is a function
  \<open>r\<close> that the operation receives, so that nothing below depends on a particular
  rounding of a particular number.
\<close>

datatype ieee = Fin rat | NZero | PInf | NInf | NaN

datatype fp_type = Single | Double

text \<open>A value of a C++ floating expression: its static type and its value.\<close>

datatype cval = FP (ty: fp_type) (num: ieee)

definition is_nan :: "ieee \<Rightarrow> bool" where
  "is_nan a = (a = NaN)"

definition is_inf :: "ieee \<Rightarrow> bool" where
  "is_inf a = (a = PInf \<or> a = NInf)"

definition is_zero :: "ieee \<Rightarrow> bool" where
  "is_zero a = (a = Fin 0 \<or> a = NZero)"

fun rat_of :: "ieee \<Rightarrow> rat" where
  "rat_of (Fin q) = q"
| "rat_of _ = 0"

text \<open>The sign bit (of no meaning for a not-a-number).\<close>

fun is_neg :: "ieee \<Rightarrow> bool" where
  "is_neg (Fin q) = (q < 0)"
| "is_neg NZero = True"
| "is_neg NInf = True"
| "is_neg _ = False"

definition signed_zero :: "bool \<Rightarrow> ieee" where
  "signed_zero s = (if s then NZero else Fin 0)"

definition signed_inf :: "bool \<Rightarrow> ieee" where
  "signed_inf s = (if s then NInf else PInf)"

fun ieee_neg :: "ieee \<Rightarrow> ieee" where
  "ieee_neg (Fin q) = (if q = 0 then NZero else Fin (- q))"
| "ieee_neg NZero = Fin 0"
| "ieee_neg PInf = NInf"
| "ieee_neg NInf = PInf"
| "ieee_neg NaN = NaN"

fun ieee_abs :: "ieee \<Rightarrow> ieee" where
  "ieee_abs (Fin q) = Fin \<bar>q\<bar>"
| "ieee_abs NZero = Fin 0"
| "ieee_abs PInf = PInf"
| "ieee_abs NInf = PInf"
| "ieee_abs NaN = NaN"

text \<open>
  Addition: a not-a-number operand gives a not-a-number, as do two infinities of opposite
  sign; an exact sum of zero is the positive zero unless both operands are negative.
\<close>

definition ieee_add :: "(rat \<Rightarrow> ieee) \<Rightarrow> ieee \<Rightarrow> ieee \<Rightarrow> ieee" where
  "ieee_add r a b =
     (if is_nan a \<or> is_nan b then NaN
      else if is_inf a then (if is_inf b \<and> a \<noteq> b then NaN else a)
      else if is_inf b then b
      else if rat_of a + rat_of b = 0 then signed_zero (is_neg a \<and> is_neg b)
      else r (rat_of a + rat_of b))"

definition ieee_sub :: "(rat \<Rightarrow> ieee) \<Rightarrow> ieee \<Rightarrow> ieee \<Rightarrow> ieee" where
  "ieee_sub r a b = ieee_add r a (ieee_neg b)"

text \<open>Multiplication: infinity times zero is a not-a-number; the sign is the exclusive
  or of the signs.\<close>

definition ieee_mul :: "(rat \<Rightarrow> ieee) \<Rightarrow> ieee \<Rightarrow> ieee \<Rightarrow> ieee" where
  "ieee_mul r a b =
     (if is_nan a \<or> is_nan b then NaN
      else if (is_inf a \<and> is_zero b) \<or> (is_zero a \<and> is_inf b) then NaN
      else if is_inf a \<or> is_inf b then signed_inf (is_neg a \<noteq> is_neg b)
      else if rat_of a * rat_of b = 0 then signed_zero (is_neg a \<noteq> is_neg b)
      else r (rat_of a * rat_of b))"

text \<open>Division: infinity by infinity and zero by zero are not-a-numbers; a non-zero value
  divided by zero is an infinity.\<close>

definition ieee_div :: "(rat \<Rightarrow> ieee) \<Rightarrow> ieee \<Rightarrow> ieee \<Rightarrow> ieee" where
  "ieee_div r a b =
     (if is_nan a \<or> is_nan b then NaN
      else if is_inf a then (if is_inf b then NaN else signed_inf (is_neg a \<noteq> is_neg b))
      else if is_inf b then signed_zero (is_neg a \<noteq> is_neg b)
      else if is_zero b then (if is_zero a then NaN else signed_inf (is_neg a \<noteq> is_neg b))
      else if is_zero a then signed_zero (is_neg a \<noteq> is_neg b)
      else r (rat_of a / rat_of b))"

text \<open>Comparisons: every ordered comparison with a not-a-number is false; the two zeros
  are equal.\<close>

definition ieee_le :: "ieee \<Rightarrow> ieee \<Rightarrow> bool" where
  "ieee_le a b =
     (\<not> is_nan a \<and> \<not> is_nan b \<and>
      (a = NInf \<or> b = PInf \<or> (\<not> is_inf a \<and> \<not> is_inf b \<and> rat_of a \<le> rat_of b)))"

definition ieee_lt :: "ieee \<Rightarrow> ieee \<Rightarrow> bool" where
  "ieee_lt a b =
     (\<not> is_nan a \<and> \<not> is_nan b \<and>
      ((a = NInf \<and> b \<noteq> NInf) \<or> (b = PInf \<and> a \<noteq> PInf) \<or>
       (\<not> is_inf a \<and> \<not> is_inf b \<and> rat_of a < rat_of b)))"

definition ieee_eq :: "ieee \<Rightarrow> ieee \<Rightarrow> bool" where
  "ieee_eq a b =
     (\<not> is_nan a \<and> \<not> is_nan b \<and>
      (if is_inf a \<or> is_inf b then a = b else rat_of a = rat_of b))"

text \<open>Conversion into a format, and of an integer into a format.\<close>

definition ieee_conv :: "(rat \<Rightarrow> ieee) \<Rightarrow> ieee \<Rightarrow> ieee" where
  "ieee_conv r a = (case a of Fin q \<Rightarrow> (if q = 0 then Fin 0 else r q) | _ \<Rightarrow> a)"

definition ieee_of_int :: "(rat \<Rightarrow> ieee) \<Rightarrow> int \<Rightarrow> ieee" where
  "ieee_of_int r i = (if i = 0 then Fin 0 else r (of_int i))"

text \<open>
  Conversion of a floating value to a 32-bit \<open>int\<close> truncates towards zero; the behaviour
  is undefined (here \<open>None\<close>) when the truncated value does not fit, and for an infinity
  or a not-a-number.
\<close>

definition trunc_rat :: "rat \<Rightarrow> int" where
  "trunc_rat q = (if 0 \<le> q then \<lfloor>q\<rfloor> else - \<lfloor>- q\<rfloor>)"

definition ieee_to_int :: "ieee \<Rightarrow> int option" where
  "ieee_to_int a =
     (case a of
        Fin q \<Rightarrow>
          (if - (2 ^ 31) \<le> trunc_rat q \<and> trunc_rat q < 2 ^ 31 then Some (trunc_rat q) else None)
      | NZero \<Rightarrow> Some 0
      | _ \<Rightarrow> None)"

section \<open>The platform\<close>

text \<open>
  What the sources under verification do not fix is a parameter of every definition
  below, collected in one record:
  \<^item> \<open>NDEBUG\<close>: whether assertions (\<open>BOOST_ASSERT\<close>) are compiled out;
  \<^item> \<open>precision_type\<close>: the floating type of the constant \<open>COORDINATE_PRECISION\<close>
    (declared in \<open>osrm/Coordinate.h\<close>, which is missing);
  \<^item> \<open>rnd\<close>: the rounding of an exact non-zero result into each format;
  \<^item> \<open>overload_type\<close>: the type at which an unqualified call such as \<open>sqrt(v)\<close> with
    a \<open>float\<close> argument is evaluated (\<open>double\<close> where only the C function is visible,
    \<open>float\<close> where the C++ overloads are);
  \<^item> \<open>lat2y\<close>, \<open>y2lat\<close>: the latitude transform of \<open>Util/MercatorUtil.h\<close> (missing) and
    its inverse;
  \<^item> \<open>c_sin\<close>, \<open>c_cos\<close>, \<open>c_sqrt\<close>, \<open>c_atan2\<close>, \<open>c_pow\<close>: the mathematical library, for
    each format.
\<close>

record platform =
  NDEBUG :: bool
  precision_type :: fp_type
  rnd :: "fp_type \<Rightarrow> rat \<Rightarrow> ieee"
  overload_type :: fp_type
  lat2y :: "cval \<Rightarrow> cval"
  y2lat :: "cval \<Rightarrow> cval"
  c_sin :: "fp_type \<Rightarrow> ieee \<Rightarrow> ieee"
  c_cos :: "fp_type \<Rightarrow> ieee \<Rightarrow> ieee"
  c_sqrt :: "fp_type \<Rightarrow> ieee \<Rightarrow> ieee"
  c_atan2 :: "fp_type \<Rightarrow> ieee \<Rightarrow> ieee \<Rightarrow> ieee"
  c_pow :: "fp_type \<Rightarrow> ieee \<Rightarrow> ieee \<Rightarrow> ieee"


section \<open>C++ floating expressions\<close>

text \<open>
  The usual arithmetic conversions: an operation on a \<open>float\<close> and a \<open>double\<close> is done in
  \<open>double\<close> (the widening is exact), and its result is rounded once, into the type of
  the operation.
\<close>

definition usual :: "fp_type \<Rightarrow> fp_type \<Rightarrow> fp_type" where
  "usual s t = (if s = Double \<or> t = Double then Double else Single)"

definition arith ::
  "platform \<Rightarrow> ((rat \<Rightarrow> ieee) \<Rightarrow> ieee \<Rightarrow> ieee \<Rightarrow> ieee) \<Rightarrow> cval \<Rightarrow> cval \<Rightarrow> cval" where
  "arith pf f a b = FP (usual (ty a) (ty b)) (f (rnd pf (usual (ty a) (ty b))) (num a) (num b))"

definition fp_add :: "platform \<Rightarrow> cval \<Rightarrow> cval \<Rightarrow> cval" where
  "fp_add pf a b = arith pf ieee_add a b"

definition fp_sub :: "platform \<Rightarrow> cval \<Rightarrow> cval \<Rightarrow> cval" where
  "fp_sub pf a b = arith pf ieee_sub a b"

definition fp_mul :: "platform \<Rightarrow> cval \<Rightarrow> cval \<Rightarrow> cval" where
  "fp_mul pf a b = arith pf ieee_mul a b"

definition fp_div :: "platform \<Rightarrow> cval \<Rightarrow> cval \<Rightarrow> cval" where
  "fp_div pf a b = arith pf ieee_div a b"

text \<open>\<open>std::abs\<close> keeps the type of its argument; the comparisons and \<open>std::isnan\<close>
  read the values.\<close>

definition fp_abs :: "cval \<Rightarrow> cval" where
  "fp_abs a = FP (ty a) (ieee_abs (num a))"

definition fp_lt :: "cval \<Rightarrow> cval \<Rightarrow> bool" where
  "fp_lt a b = ieee_lt (num a) (num b)"

definition fp_le :: "cval \<Rightarrow> cval \<Rightarrow> bool" where
  "fp_le a b = ieee_le (num a) (num b)"

definition fp_gt :: "cval \<Rightarrow> cval \<Rightarrow> bool" where
  "fp_gt a b = ieee_lt (num b) (num a)"

definition fp_ge :: "cval \<Rightarrow> cval \<Rightarrow> bool" where
  "fp_ge a b = ieee_le (num b) (num a)"

definition fp_ne :: "cval \<Rightarrow> cval \<Rightarrow> bool" where
  "fp_ne a b = (\<not> ieee_eq (num a) (num b))"

definition fp_isnan :: "cval \<Rightarrow> bool" where
  "fp_isnan a = is_nan (num a)"

text \<open>
  Initialising or assigning a \<open>float\<close> (\<open>const float v = e\<close>) rounds a \<open>double\<close> value
  into \<open>float\<close> and leaves a \<open>float\<close> value as it is; initialising a \<open>double\<close> is exact.
\<close>

definition to_float :: "platform \<Rightarrow> cval \<Rightarrow> cval" where
  "to_float pf a = FP Single (if ty a = Single then num a else ieee_conv (rnd pf Single) (num a))"

definition to_double :: "cval \<Rightarrow> cval" where
  "to_double a = FP Double (num a)"

text \<open>Literals whose value both formats hold exactly (\<open>1.\<close>, \<open>0.f\<close>, \<open>360.f\<close>, ...), and a
  decimal literal of type \<open>double\<close>, rounded into the format.\<close>

definition flt :: "rat \<Rightarrow> cval" where
  "flt q = FP Single (Fin q)"

definition dbl :: "rat \<Rightarrow> cval" where
  "dbl q = FP Double (Fin q)"

definition double_literal :: "platform \<Rightarrow> rat \<Rightarrow> cval" where
  "double_literal pf q = FP Double (ieee_conv (rnd pf Double) (Fin q))"

text \<open>\<open>std::numeric_limits<float>::epsilon()\<close> is \<open>2 ^ -23\<close>; \<open>M_PI\<close> is the \<open>double\<close>
  nearest to the number pi.\<close>

definition FLT_EPSILON :: cval where
  "FLT_EPSILON = flt (1 / 8388608)"

definition M_PI :: cval where
  "M_PI = dbl (884279719003555 / 281474976710656)"

text \<open>An \<open>int\<close> operand of a floating operation is converted to the type of the other
  operand; a floating value stored into an \<open>int\<close> is truncated.\<close>

definition of_int_as :: "platform \<Rightarrow> fp_type \<Rightarrow> int \<Rightarrow> cval" where
  "of_int_as pf t i = FP t (ieee_of_int (rnd pf t) i)"

definition int_div_fp :: "platform \<Rightarrow> int \<Rightarrow> cval \<Rightarrow> cval" where
  "int_div_fp pf i b = fp_div pf (of_int_as pf (ty b) i) b"

definition int_sub_fp :: "platform \<Rightarrow> int \<Rightarrow> cval \<Rightarrow> cval" where
  "int_sub_fp pf i b = fp_sub pf (of_int_as pf (ty b) i) b"

definition to_int :: "cval \<Rightarrow> int option" where
  "to_int a = ieee_to_int (num a)"

text \<open>
  Calls into the mathematical library: an unqualified call (\<open>cos(v)\<close>) is evaluated in
  \<open>double\<close> for a \<open>double\<close> argument and at the platform's \<open>overload_type\<close> for a \<open>float\<close>
  one; a qualified call (\<open>std::sin(v)\<close>) keeps the type of its argument.
\<close>

definition c_call :: "platform \<Rightarrow> (platform \<Rightarrow> fp_type \<Rightarrow> ieee \<Rightarrow> ieee) \<Rightarrow> cval \<Rightarrow> cval" where
  "c_call pf f a =
     (let t = (if ty a = Double then Double else overload_type pf) in FP t (f pf t (num a)))"

definition std_call :: "platform \<Rightarrow> (platform \<Rightarrow> fp_type \<Rightarrow> ieee \<Rightarrow> ieee) \<Rightarrow> cval \<Rightarrow> cval" where
  "std_call pf f a = FP (ty a) (f pf (ty a) (num a))"

definition std_call2 ::
  "platform \<Rightarrow> (platform \<Rightarrow> fp_type \<Rightarrow> ieee \<Rightarrow> ieee \<Rightarrow> ieee) \<Rightarrow> cval \<Rightarrow> cval \<Rightarrow> cval" where
  "std_call2 pf f a b = FP (usual (ty a) (ty b)) (f pf (usual (ty a) (ty b)) (num a) (num b))"

section \<open>Errors\<close>

text \<open>
  A failed \<open>BOOST_ASSERT\<close> aborts the program; an \<open>int\<close> overflow and a floating value
  that does not fit the \<open>int\<close> it is stored into have undefined behaviour. Both are
  results of the functions below. With \<open>NDEBUG\<close> an assertion checks nothing.
\<close>

datatype error = AssertionFailed | UndefinedBehaviour

definition BOOST_ASSERT :: "platform \<Rightarrow> bool \<Rightarrow> error + 'a \<Rightarrow> error + 'a" where
  "BOOST_ASSERT pf ok rest = (if NDEBUG pf \<or> ok then rest else Inl AssertionFailed)"

definition and_then :: "error + 'a \<Rightarrow> ('a \<Rightarrow> error + 'b) \<Rightarrow> error + 'b" where
  "and_then m f = (case m of Inl e \<Rightarrow> Inl e | Inr v \<Rightarrow> f v)"

definition defined :: "'a option \<Rightarrow> error + 'a" where
  "defined m = (case m of None \<Rightarrow> Inl UndefinedBehaviour | Some v \<Rightarrow> Inr v)"

text \<open>An \<open>int\<close> result: undefined behaviour outside 32 bits.\<close>

definition int_result :: "int \<Rightarrow> error + int" where
  "int_result i = (if - (2 ^ 31) \<le> i \<and> i < 2 ^ 31 then Inr i else Inl UndefinedBehaviour)"

section \<open>Validity of a coordinate\<close>

text \<open>The constant \<open>COORDINATE_PRECISION\<close> as a floating value of the platform's
  \<open>precision_type\<close>.\<close>

definition precision :: "platform \<Rightarrow> cval" where
  "precision pf = FP (precision_type pf) (Fin (of_int COORDINATE_PRECISION))"

text \<open>An \<open>int\<close> multiplied by, and compared with, a floating value: the \<open>int\<close> is converted
  to the type of the floating operand first.\<close>

definition int_mul_fp :: "platform \<Rightarrow> int \<Rightarrow> cval \<Rightarrow> cval" where
  "int_mul_fp pf i b = fp_mul pf (of_int_as pf (ty b) i) b"

definition int_gt_fp :: "platform \<Rightarrow> int \<Rightarrow> cval \<Rightarrow> bool" where
  "int_gt_fp pf i b = fp_gt (of_int_as pf (ty b) i) b"

definition int_lt_fp :: "platform \<Rightarrow> int \<Rightarrow> cval \<Rightarrow> bool" where
  "int_lt_fp pf i b = fp_lt (of_int_as pf (ty b) i) b"

text \<open>
  \<open>isValid\<close> (lines 74--82): the early \<open>return false\<close>, then \<open>return true\<close>. Each bound
  (\<open>90 * COORDINATE_PRECISION\<close>, ...) is a floating product, and each comparison converts
  the \<open>int\<close> field to the type of the bound; with a \<open>float\<close> constant that conversion
  rounds, so that a field a few units beyond the bound can still compare as equal to it.
\<close>

definition isValid :: "platform \<Rightarrow> FixedPointCoordinate \<Rightarrow> bool" where
  "isValid pf c =
     (if int_gt_fp pf (sint (lat c)) (int_mul_fp pf 90 (precision pf)) \<or>
         int_lt_fp pf (sint (lat c)) (int_mul_fp pf (- 90) (precision pf)) \<or>
         int_gt_fp pf (sint (lon c)) (int_mul_fp pf 180 (precision pf)) \<or>
         int_lt_fp pf (sint (lon c)) (int_mul_fp pf (- 180) (precision pf))
      then False
      else True)"

section \<open>Distances between two points\<close>

text \<open>
  \<open>ApproximateDistance(lat1, lon1, lat2, lon2)\<close> (lines 88--117), the haversine formula
  in \<open>double\<close>.
\<close>

definition ApproximateDistance4 ::
  "platform \<Rightarrow> 32 word \<Rightarrow> 32 word \<Rightarrow> 32 word \<Rightarrow> 32 word \<Rightarrow> error + cval" where
  "ApproximateDistance4 pf lat1 lon1 lat2 lon2 =
     BOOST_ASSERT pf (lat1 \<noteq> int_min) (
     BOOST_ASSERT pf (lon1 \<noteq> int_min) (
     BOOST_ASSERT pf (lat2 \<noteq> int_min) (
     BOOST_ASSERT pf (lon2 \<noteq> int_min) (
       let RAD = double_literal pf (17453292519943295769236907684886 / 10 ^ 33);
           lt1 = to_double (int_div_fp pf (sint lat1) (precision pf));
           ln1 = to_double (int_div_fp pf (sint lon1) (precision pf));
           lt2 = to_double (int_div_fp pf (sint lat2) (precision pf));
           ln2 = to_double (int_div_fp pf (sint lon2) (precision pf));
           dlat1 = fp_mul pf lt1 RAD;
           dlong1 = fp_mul pf ln1 RAD;
           dlat2 = fp_mul pf lt2 RAD;
           dlong2 = fp_mul pf ln2 RAD;
           dLong = fp_sub pf dlong1 dlong2;
           dLat = fp_sub pf dlat1 dlat2;
           aHarv = fp_add pf
                     (std_call2 pf c_pow (c_call pf c_sin (fp_div pf dLat (dbl 2))) (dbl 2))
                     (fp_mul pf (fp_mul pf (c_call pf c_cos dlat1) (c_call pf c_cos dlat2))
                        (std_call2 pf c_pow (c_call pf c_sin (fp_div pf dLong (dbl 2))) (dbl 2)));
           cHarv = fp_mul pf (dbl 2)
                     (std_call2 pf c_atan2 (c_call pf c_sqrt aHarv)
                        (c_call pf c_sqrt (fp_sub pf (dbl 1) aHarv)));
           earth = double_literal pf (6372797560856 / 10 ^ 6)
       in Inr (fp_mul pf earth cHarv)))))"

text \<open>\<open>ApproximateDistance(coordinate_1, coordinate_2)\<close> (lines 119--124).\<close>

definition ApproximateDistance ::
  "platform \<Rightarrow> FixedPointCoordinate \<Rightarrow> FixedPointCoordinate \<Rightarrow> error + cval" where
  "ApproximateDistance pf coordinate_1 coordinate_2 =
     ApproximateDistance4 pf (lat coordinate_1) (lon coordinate_1) (lat coordinate_2) (lon coordinate_2)"

text \<open>
  \<open>ApproximateEuclideanDistance(lat1, lon1, lat2, lon2)\<close> (lines 133--153), the planar
  approximation in \<open>float\<close>.
\<close>

definition ApproximateEuclideanDistance4 ::
  "platform \<Rightarrow> 32 word \<Rightarrow> 32 word \<Rightarrow> 32 word \<Rightarrow> 32 word \<Rightarrow> error + cval" where
  "ApproximateEuclideanDistance4 pf lat1 lon1 lat2 lon2 =
     BOOST_ASSERT pf (lat1 \<noteq> int_min) (
     BOOST_ASSERT pf (lon1 \<noteq> int_min) (
     BOOST_ASSERT pf (lat2 \<noteq> int_min) (
     BOOST_ASSERT pf (lon2 \<noteq> int_min) (
       let RAD = to_float pf (double_literal pf (17453292519943295769236907684886 / 10 ^ 33));
           float_lat1 = to_float pf (fp_mul pf (int_div_fp pf (sint lat1) (precision pf)) RAD);
           float_lon1 = to_float pf (fp_mul pf (int_div_fp pf (sint lon1) (precision pf)) RAD);
           float_lat2 = to_float pf (fp_mul pf (int_div_fp pf (sint lat2) (precision pf)) RAD);
           float_lon2 = to_float pf (fp_mul pf (int_div_fp pf (sint lon2) (precision pf)) RAD);
           x_value = to_float pf
                       (fp_mul pf (fp_sub pf float_lon2 float_lon1)
                          (c_call pf c_cos (fp_div pf (fp_add pf float_lat1 float_lat2) (dbl 2))));
           y_value = to_float pf (fp_sub pf float_lat2 float_lat1);
           earth_radius = to_float pf (double_literal pf (6372797560856 / 10 ^ 6))
       in Inr (to_float pf
                 (fp_mul pf
                    (c_call pf c_sqrt
                       (fp_add pf (fp_mul pf x_value x_value) (fp_mul pf y_value y_value)))
                    earth_radius))))))"

text \<open>\<open>ApproximateEuclideanDistance(coordinate_1, coordinate_2)\<close> (lines 126--131).\<close>

definition ApproximateEuclideanDistance ::
  "platform \<Rightarrow> FixedPointCoordinate \<Rightarrow> FixedPointCoordinate \<Rightarrow> error + cval" where
  "ApproximateEuclideanDistance pf coordinate_1 coordinate_2 =
     ApproximateEuclideanDistance4 pf
       (lat coordinate_1) (lon coordinate_1) (lat coordinate_2) (lon coordinate_2)"


section \<open>Segment projection\<close>

text \<open>
  \<open>ComputePerpendicularDistance(point, source_coordinate, target_coordinate)\<close>, the
  distance-only variant (lines 155--224), in four steps. Lines 160--188: the planar
  frame, the foot \<open>(p, q)\<close> of the perpendicular, the auxiliary \<open>nY\<close> with its
  discretisation, and the ratio as first computed. The result is \<open>(p, q, ratio)\<close>.
\<close>

definition ComputePerpendicularDistance3_raw ::
  "platform \<Rightarrow> FixedPointCoordinate \<Rightarrow> FixedPointCoordinate \<Rightarrow> FixedPointCoordinate \<Rightarrow>
     cval \<times> cval \<times> cval" where
  "ComputePerpendicularDistance3_raw pf point source_coordinate target_coordinate =
     (let x_value = to_float pf (lat2y pf (int_div_fp pf (sint (lat point)) (precision pf)));
          y_value = to_float pf (int_div_fp pf (sint (lon point)) (precision pf));
          a = to_float pf (lat2y pf (int_div_fp pf (sint (lat source_coordinate)) (precision pf)));
          b = to_float pf (int_div_fp pf (sint (lon source_coordinate)) (precision pf));
          c = to_float pf (lat2y pf (int_div_fp pf (sint (lat target_coordinate)) (precision pf)));
          d = to_float pf (int_div_fp pf (sint (lon target_coordinate)) (precision pf));
          pq = (if fp_gt (fp_abs (fp_sub pf a c)) FLT_EPSILON
                then (let slope = to_float pf (fp_div pf (fp_sub pf d b) (fp_sub pf c a));
                          p = to_float pf
                                (fp_div pf
                                   (fp_add pf (fp_add pf x_value (fp_mul pf slope y_value))
                                      (fp_sub pf (fp_mul pf (fp_mul pf slope slope) a)
                                         (fp_mul pf slope b)))
                                   (fp_add pf (dbl 1) (fp_mul pf slope slope)));
                          q = to_float pf (fp_add pf b (fp_mul pf slope (fp_sub pf p a)))
                      in (p, q))
                else (c, y_value));
         nY0 = to_float pf
                 (fp_div pf (fp_sub pf (fp_mul pf d (fst pq)) (fp_mul pf c (snd pq)))
                    (fp_sub pf (fp_mul pf a d) (fp_mul pf b c)));
         nY = (if fp_lt (fp_abs nY0) (fp_div pf (dbl 1) (precision pf)) then flt 0 else nY0);
         ratio = to_float pf (fp_div pf (fp_sub pf (fst pq) (fp_mul pf nY a)) c)
      in (fst pq, snd pq, ratio))"

text \<open>
  Lines 189--201: the ratio after the not-a-number fallback and the snapping to 0 and 1.
  The literals \<open>1.\<close> and \<open>0.\<close> convert to \<open>float\<close> exactly.
\<close>

definition ComputePerpendicularDistance3_ratio ::
  "platform \<Rightarrow> FixedPointCoordinate \<Rightarrow> FixedPointCoordinate \<Rightarrow> FixedPointCoordinate \<Rightarrow> cval" where
  "ComputePerpendicularDistance3_ratio pf point source_coordinate target_coordinate =
     (let ratio = snd (snd (ComputePerpendicularDistance3_raw pf point source_coordinate
                              target_coordinate))
      in if fp_isnan ratio
         then (if (lat target_coordinate = lat point) \<and> (lon target_coordinate = lon point)
               then flt 1 else flt 0)
         else if fp_le (fp_abs ratio) FLT_EPSILON then flt 0
         else if fp_le (fp_abs (fp_sub pf ratio (dbl 1))) FLT_EPSILON then flt 1
         else ratio)"

text \<open>Lines 204--218: the nearest location, selected by the ratio.\<close>

definition ComputePerpendicularDistance3_nearest ::
  "platform \<Rightarrow> FixedPointCoordinate \<Rightarrow> FixedPointCoordinate \<Rightarrow> FixedPointCoordinate \<Rightarrow>
     error + FixedPointCoordinate" where
  "ComputePerpendicularDistance3_nearest pf point source_coordinate target_coordinate =
     (let raw = ComputePerpendicularDistance3_raw pf point source_coordinate target_coordinate;
          p = fst raw;
          q = fst (snd raw);
          ratio = ComputePerpendicularDistance3_ratio pf point source_coordinate target_coordinate
      in if fp_le ratio (dbl 0)
         then Inr \<lparr> lat = lat source_coordinate, lon = lon source_coordinate \<rparr>
         else if fp_ge ratio (dbl 1)
         then Inr \<lparr> lat = lat target_coordinate, lon = lon target_coordinate \<rparr>
         else and_then (defined (to_int (fp_mul pf (y2lat pf p) (precision pf)))) (\<lambda>la.
              and_then (defined (to_int (fp_mul pf q (precision pf)))) (\<lambda>lo.
              Inr \<lparr> lat = word_of_int la, lon = word_of_int lo \<rparr>)))"

text \<open>The whole function, with its assertions (lines 203, 219, 222) and the distance
  (lines 220--223).\<close>

definition ComputePerpendicularDistance3 ::
  "platform \<Rightarrow> FixedPointCoordinate \<Rightarrow> FixedPointCoordinate \<Rightarrow> FixedPointCoordinate \<Rightarrow>
     error + cval" where
  "ComputePerpendicularDistance3 pf point source_coordinate target_coordinate =
     (let ratio = ComputePerpendicularDistance3_ratio pf point source_coordinate target_coordinate
      in BOOST_ASSERT pf (\<not> fp_isnan ratio) (
         and_then (ComputePerpendicularDistance3_nearest pf point source_coordinate
                     target_coordinate) (\<lambda>nearest_location.
         BOOST_ASSERT pf (isValid pf nearest_location) (
         and_then (ApproximateEuclideanDistance pf point nearest_location) (\<lambda>approximate_distance.
         BOOST_ASSERT pf (fp_le (dbl 0) approximate_distance) (
         Inr approximate_distance))))))"

text \<open>
  \<open>ComputePerpendicularDistance(coord_a, coord_b, query_location, nearest_location, ratio)\<close>,
  the variant with output parameters (lines 226--300), in the same four steps: lines
  234--261, lines 264--276, lines 278--291, and the whole function, whose result is the
  returned distance with the final values of \<open>nearest_location\<close> and \<open>ratio\<close>.
\<close>

definition ComputePerpendicularDistance5_raw ::
  "platform \<Rightarrow> FixedPointCoordinate \<Rightarrow> FixedPointCoordinate \<Rightarrow> FixedPointCoordinate \<Rightarrow>
     cval \<times> cval \<times> cval" where
  "ComputePerpendicularDistance5_raw pf coord_a coord_b query_location =
     (let x = to_float pf (lat2y pf (int_div_fp pf (sint (lat query_location)) (precision pf)));
          y = to_float pf (int_div_fp pf (sint (lon query_location)) (precision pf));
          a = to_float pf (lat2y pf (int_div_fp pf (sint (lat coord_a)) (precision pf)));
          b = to_float pf (int_div_fp pf (sint (lon coord_a)) (precision pf));
          c = to_float pf (lat2y pf (int_div_fp pf (sint (lat coord_b)) (precision pf)));
          d = to_float pf (int_div_fp pf (sint (lon coord_b)) (precision pf));
          pq = (if fp_gt (fp_abs (fp_sub pf a c)) FLT_EPSILON
                then (let m = to_float pf (fp_div pf (fp_sub pf d b) (fp_sub pf c a));
                          p = to_float pf
                                (fp_div pf
                                   (fp_add pf (fp_add pf x (fp_mul pf m y))
                                      (fp_sub pf (fp_mul pf (fp_mul pf m m) a)
                                         (fp_mul pf m b)))
                                   (fp_add pf (dbl 1) (fp_mul pf m m)));
                          q = to_float pf (fp_add pf b (fp_mul pf m (fp_sub pf p a)))
                      in (p, q))
                else (c, y));
         nY0 = to_float pf
                 (fp_div pf (fp_sub pf (fp_mul pf d (fst pq)) (fp_mul pf c (snd pq)))
                    (fp_sub pf (fp_mul pf a d) (fp_mul pf b c)));
         nY = (if fp_lt (fp_abs nY0) (fp_div pf (dbl 1) (precision pf)) then flt 0 else nY0);
         ratio = to_float pf (fp_div pf (fp_sub pf (fst pq) (fp_mul pf nY a)) c)
      in (fst pq, snd pq, ratio))"

definition ComputePerpendicularDistance5_ratio ::
  "platform \<Rightarrow> FixedPointCoordinate \<Rightarrow> FixedPointCoordinate \<Rightarrow> FixedPointCoordinate \<Rightarrow> cval" where
  "ComputePerpendicularDistance5_ratio pf coord_a coord_b query_location =
     (let ratio = snd (snd (ComputePerpendicularDistance5_raw pf coord_a coord_b query_location))
      in if fp_isnan ratio
         then (if (lat coord_b = lat query_location) \<and> (lon coord_b = lon query_location)
               then flt 1 else flt 0)
         else if fp_le (fp_abs ratio) FLT_EPSILON then flt 0
         else if fp_le (fp_abs (fp_sub pf ratio (dbl 1))) FLT_EPSILON then flt 1
         else ratio)"

definition ComputePerpendicularDistance5_nearest ::
  "platform \<Rightarrow> FixedPointCoordinate \<Rightarrow> FixedPointCoordinate \<Rightarrow> FixedPointCoordinate \<Rightarrow>
     error + FixedPointCoordinate" where
  "ComputePerpendicularDistance5_nearest pf coord_a coord_b query_location =
     (let raw = ComputePerpendicularDistance5_raw pf coord_a coord_b query_location;
          p = fst raw;
          q = fst (snd raw);
          ratio = ComputePerpendicularDistance5_ratio pf coord_a coord_b query_location
      in if fp_le ratio (dbl 0) then Inr coord_a
         else if fp_ge ratio (dbl 1) then Inr coord_b
         else and_then (defined (to_int (fp_mul pf (y2lat pf p) (precision pf)))) (\<lambda>la.
              and_then (defined (to_int (fp_mul pf q (precision pf)))) (\<lambda>lo.
              Inr \<lparr> lat = word_of_int la, lon = word_of_int lo \<rparr>)))"

definition ComputePerpendicularDistance5 ::
  "platform \<Rightarrow> FixedPointCoordinate \<Rightarrow> FixedPointCoordinate \<Rightarrow> FixedPointCoordinate \<Rightarrow>
     error + (cval \<times> FixedPointCoordinate \<times> cval)" where
  "ComputePerpendicularDistance5 pf coord_a coord_b query_location =
     BOOST_ASSERT pf (isValid pf query_location) (
       let ratio = ComputePerpendicularDistance5_ratio pf coord_a coord_b query_location
       in BOOST_ASSERT pf (\<not> fp_isnan ratio) (
          and_then (ComputePerpendicularDistance5_nearest pf coord_a coord_b query_location)
            (\<lambda>nearest_location.
          BOOST_ASSERT pf (isValid pf nearest_location) (
          and_then (ApproximateEuclideanDistance pf query_location nearest_location)
            (\<lambda>approximate_distance.
          BOOST_ASSERT pf (fp_le (dbl 0) approximate_distance) (
          Inr (approximate_distance, nearest_location, ratio)))))))"

section \<open>Bearing\<close>

text \<open>\<open>DegreeToRadian\<close> and \<open>RadianToDegree\<close> (lines 383 and 385); the parameter is a
  \<open>float\<close>, the product is formed in \<open>double\<close> and returned as a \<open>float\<close>.\<close>

definition DegreeToRadian :: "platform \<Rightarrow> cval \<Rightarrow> cval" where
  "DegreeToRadian pf arg =
     (let degree = to_float pf arg in to_float pf (fp_mul pf degree (fp_div pf M_PI (flt 180))))"

definition RadianToDegree :: "platform \<Rightarrow> cval \<Rightarrow> cval" where
  "RadianToDegree pf arg =
     (let radian = to_float pf arg in to_float pf (fp_mul pf radian (fp_div pf (flt 180) M_PI)))"

text \<open>
  The two normalising loops (lines 348--356 and 371--379). A loop that does not end has
  no result (\<open>None\<close>).
\<close>

partial_function (option) while_negative :: "platform \<Rightarrow> cval \<Rightarrow> cval option" where
  "while_negative pf result =
     (if fp_lt result (flt 0)
      then while_negative pf (to_float pf (fp_add pf result (flt 360)))
      else Some result)"

partial_function (option) while_at_least_360 :: "platform \<Rightarrow> cval \<Rightarrow> cval option" where
  "while_at_least_360 pf result =
     (if fp_ge result (flt 360)
      then while_at_least_360 pf (to_float pf (fp_sub pf result (flt 360)))
      else Some result)"

text \<open>The static \<open>GetBearing(A, B)\<close> (lines 339--358); \<open>sin\<close> and \<open>cos\<close> are called
  unqualified, \<open>std::atan2\<close> qualified.\<close>

definition GetBearing2 ::
  "platform \<Rightarrow> FixedPointCoordinate \<Rightarrow> FixedPointCoordinate \<Rightarrow> cval option" where
  "GetBearing2 pf A B =
     (let delta_long = DegreeToRadian pf
                         (fp_sub pf (int_div_fp pf (sint (lon B)) (precision pf))
                            (int_div_fp pf (sint (lon A)) (precision pf)));
          lat1 = DegreeToRadian pf (int_div_fp pf (sint (lat A)) (precision pf));
          lat2 = DegreeToRadian pf (int_div_fp pf (sint (lat B)) (precision pf));
          y = to_float pf (fp_mul pf (c_call pf c_sin delta_long) (c_call pf c_cos lat2));
          x = to_float pf
                (fp_sub pf (fp_mul pf (c_call pf c_cos lat1) (c_call pf c_sin lat2))
                   (fp_mul pf (fp_mul pf (c_call pf c_sin lat1) (c_call pf c_cos lat2))
                      (c_call pf c_cos delta_long)));
          result = RadianToDegree pf (std_call2 pf c_atan2 y x)
      in Option.bind (while_negative pf result) (while_at_least_360 pf))"

text \<open>The member \<open>GetBearing(other)\<close> (lines 360--381), on the coordinate \<open>self\<close>; every
  library call is qualified.\<close>

definition GetBearing1 ::
  "platform \<Rightarrow> FixedPointCoordinate \<Rightarrow> FixedPointCoordinate \<Rightarrow> cval option" where
  "GetBearing1 pf self other =
     (let delta_long = DegreeToRadian pf
                         (fp_sub pf (int_div_fp pf (sint (lon self)) (precision pf))
                            (int_div_fp pf (sint (lon other)) (precision pf)));
          lat1 = DegreeToRadian pf (int_div_fp pf (sint (lat other)) (precision pf));
          lat2 = DegreeToRadian pf (int_div_fp pf (sint (lat self)) (precision pf));
          y_value = to_float pf (fp_mul pf (std_call pf c_sin delta_long) (std_call pf c_cos lat2));
          x_value = to_float pf
                      (fp_sub pf (fp_mul pf (std_call pf c_cos lat1) (std_call pf c_sin lat2))
                         (fp_mul pf (fp_mul pf (std_call pf c_sin lat1) (std_call pf c_cos lat2))
                            (std_call pf c_cos delta_long)));
          result = RadianToDegree pf (std_call2 pf c_atan2 y_value x_value)
      in Option.bind (while_negative pf result) (while_at_least_360 pf))"

section \<open>The ordering-only approximation\<close>

text \<open>
  \<open>OrderedPerpendicularDistanceApproximation\<close> (lines 390--443), in four steps. Lines
  395--416: the planar frame, the foot and the ratio as first computed (no
  discretisation of \<open>nY\<close>, the test \<open>a != c\<close>, the literal \<open>1.f\<close>).
\<close>

definition OrderedPerpendicularDistanceApproximation_raw ::
  "platform \<Rightarrow> FixedPointCoordinate \<Rightarrow> FixedPointCoordinate \<Rightarrow> FixedPointCoordinate \<Rightarrow>
     cval \<times> cval \<times> cval" where
  "OrderedPerpendicularDistanceApproximation_raw pf input_point segment_source segment_target =
     (let x = to_float pf (lat2y pf (int_div_fp pf (sint (lat input_point)) (precision pf)));
          y = to_float pf (int_div_fp pf (sint (lon input_point)) (precision pf));
          a = to_float pf (lat2y pf (int_div_fp pf (sint (lat segment_source)) (precision pf)));
          b = to_float pf (int_div_fp pf (sint (lon segment_source)) (precision pf));
          c = to_float pf (lat2y pf (int_div_fp pf (sint (lat segment_target)) (precision pf)));
          d = to_float pf (int_div_fp pf (sint (lon segment_target)) (precision pf));
          pq = (if fp_ne a c
                then (let m = to_float pf (fp_div pf (fp_sub pf d b) (fp_sub pf c a));
                          p = to_float pf
                                (fp_div pf
                                   (fp_add pf (fp_add pf x (fp_mul pf m y))
                                      (fp_sub pf (fp_mul pf (fp_mul pf m m) a)
                                         (fp_mul pf m b)))
                                   (fp_add pf (flt 1) (fp_mul pf m m)));
                          q = to_float pf (fp_add pf b (fp_mul pf m (fp_sub pf p a)))
                      in (p, q))
                else (c, y));
         nY = to_float pf
                (fp_div pf (fp_sub pf (fp_mul pf d (fst pq)) (fp_mul pf c (snd pq)))
                   (fp_sub pf (fp_mul pf a d) (fp_mul pf b c)));
         ratio = to_float pf (fp_div pf (fp_sub pf (fst pq) (fp_mul pf nY a)) c)
      in (fst pq, snd pq, ratio))"

text \<open>Lines 419--422: the not-a-number fallback.\<close>

definition OrderedPerpendicularDistanceApproximation_ratio ::
  "platform \<Rightarrow> FixedPointCoordinate \<Rightarrow> FixedPointCoordinate \<Rightarrow> FixedPointCoordinate \<Rightarrow> cval" where
  "OrderedPerpendicularDistanceApproximation_ratio pf input_point segment_source segment_target =
     (let ratio = snd (snd (OrderedPerpendicularDistanceApproximation_raw pf input_point
                              segment_source segment_target))
      in if fp_isnan ratio
         then (if coordinate_eq segment_target input_point then flt 1 else flt 0)
         else ratio)"

text \<open>Lines 424--440: the differences \<open>(dx, dy)\<close>, in \<open>int\<close>.\<close>

definition OrderedPerpendicularDistanceApproximation_delta ::
  "platform \<Rightarrow> FixedPointCoordinate \<Rightarrow> FixedPointCoordinate \<Rightarrow> FixedPointCoordinate \<Rightarrow>
     error + (int \<times> int)" where
  "OrderedPerpendicularDistanceApproximation_delta pf input_point segment_source segment_target =
     (let raw = OrderedPerpendicularDistanceApproximation_raw pf input_point segment_source
                  segment_target;
          p = fst raw;
          q = fst (snd raw);
          ratio = OrderedPerpendicularDistanceApproximation_ratio pf input_point segment_source
                    segment_target
      in if fp_lt ratio (flt 0)
         then and_then (int_result (sint (lon input_point) - sint (lon segment_source))) (\<lambda>dx.
              and_then (int_result (sint (lat input_point) - sint (lat segment_source))) (\<lambda>dy.
              Inr (dx, dy)))
         else if fp_gt ratio (flt 1)
         then and_then (int_result (sint (lon input_point) - sint (lon segment_target))) (\<lambda>dx.
              and_then (int_result (sint (lat input_point) - sint (lat segment_target))) (\<lambda>dy.
              Inr (dx, dy)))
         else and_then (defined (to_int (int_sub_fp pf (sint (lon input_point))
                                           (fp_mul pf q (precision pf))))) (\<lambda>dx.
              and_then (defined (to_int (int_sub_fp pf (sint (lat input_point))
                                           (fp_mul pf (y2lat pf p) (precision pf))))) (\<lambda>dy.
              Inr (dx, dy))))"

text \<open>Lines 441--442: \<open>const int dist = sqrt(dx * dx + dy * dy)\<close>, the products and the
  sum in \<open>int\<close>, the square root in \<open>double\<close>.\<close>

definition OrderedPerpendicularDistanceApproximation ::
  "platform \<Rightarrow> FixedPointCoordinate \<Rightarrow> FixedPointCoordinate \<Rightarrow> FixedPointCoordinate \<Rightarrow>
     error + int" where
  "OrderedPerpendicularDistanceApproximation pf input_point segment_source segment_target =
     and_then (OrderedPerpendicularDistanceApproximation_delta pf input_point segment_source
                 segment_target) (\<lambda>delta.
     and_then (int_result (fst delta * fst delta)) (\<lambda>xx.
     and_then (int_result (snd delta * snd delta)) (\<lambda>yy.
     and_then (int_result (xx + yy)) (\<lambda>sq.
     defined (to_int (c_call pf c_sqrt (of_int_as pf Double sq)))))))"


section \<open>Auxiliary notions for the statements\<close>

text \<open>
  The ratio of the two projection variants after the not-a-number fallback alone (lines
  189--193 and 264--268), before the snapping to 0 and 1.
\<close>

definition ComputePerpendicularDistance3_fallback ::
  "platform \<Rightarrow> FixedPointCoordinate \<Rightarrow> FixedPointCoordinate \<Rightarrow> FixedPointCoordinate \<Rightarrow> cval" where
  "ComputePerpendicularDistance3_fallback pf point source_coordinate target_coordinate =
     (let ratio = snd (snd (ComputePerpendicularDistance3_raw pf point source_coordinate
                              target_coordinate))
      in if fp_isnan ratio
         then (if (lat target_coordinate = lat point) \<and> (lon target_coordinate = lon point)
               then flt 1 else flt 0)
         else ratio)"

definition ComputePerpendicularDistance5_fallback ::
  "platform \<Rightarrow> FixedPointCoordinate \<Rightarrow> FixedPointCoordinate \<Rightarrow> FixedPointCoordinate \<Rightarrow> cval" where
  "ComputePerpendicularDistance5_fallback pf coord_a coord_b query_location =
     (let ratio = snd (snd (ComputePerpendicularDistance5_raw pf coord_a coord_b query_location))
      in if fp_isnan ratio
         then (if (lat coord_b = lat query_location) \<and> (lon coord_b = lon query_location)
               then flt 1 else flt 0)
         else ratio)"

text \<open>An infinity or a not-a-number.\<close>

definition special :: "ieee \<Rightarrow> bool" where
  "special a = (is_nan a \<or> is_inf a)"

text \<open>
  Properties of the rounding that IEEE 754 arithmetic in round-to-nearest has, for the
  statements that need them: rounding is monotone, it leaves a number with at most 24
  significant bits and an exponent of at most 64 in magnitude as it is (such a number
  belongs to both formats), and it commutes with negation.
\<close>

definition rounding_monotone :: "platform \<Rightarrow> bool" where
  "rounding_monotone pf =
     (\<forall>t p q. p \<noteq> 0 \<and> q \<noteq> 0 \<and> p \<le> q \<longrightarrow> ieee_le (rnd pf t p) (rnd pf t q))"

definition rounding_exact :: "platform \<Rightarrow> bool" where
  "rounding_exact pf =
     (\<forall>t n k. n \<noteq> 0 \<and> \<bar>n\<bar> \<le> 2 ^ 24 \<and> k \<le> 64 \<longrightarrow>
        rnd pf t (of_int n / 2 ^ k) = Fin (of_int n / 2 ^ k) \<and>
        rnd pf t (of_int n * 2 ^ k) = Fin (of_int n * 2 ^ k))"

definition rounding_odd :: "platform \<Rightarrow> bool" where
  "rounding_odd pf = (\<forall>t q. q \<noteq> 0 \<longrightarrow> rnd pf t (- q) = ieee_neg (rnd pf t q))"

text \<open>
  Properties of the mathematical library, for the statements that need them. The sine
  is odd and the square by \<open>pow\<close> is even; the sine and the cosine of a finite argument
  are finite and at most 1 in magnitude, and the arc tangent of two finite arguments is
  finite and at most 4 in magnitude.
\<close>

definition bounded_by :: "rat \<Rightarrow> ieee \<Rightarrow> bool" where
  "bounded_by m a = (\<not> is_nan a \<and> \<not> is_inf a \<and> \<bar>rat_of a\<bar> \<le> m)"

definition libm_symmetric :: "platform \<Rightarrow> bool" where
  "libm_symmetric pf =
     (\<forall>t a. c_sin pf t (ieee_neg a) = ieee_neg (c_sin pf t a) \<and>
            c_pow pf t (ieee_neg a) (Fin 2) = c_pow pf t a (Fin 2))"

definition libm_bounded :: "platform \<Rightarrow> bool" where
  "libm_bounded pf =
     (\<forall>t a b. (\<not> is_nan a \<and> \<not> is_inf a \<longrightarrow>
                bounded_by 1 (c_sin pf t a) \<and> bounded_by 1 (c_cos pf t a)) \<and>
              (\<not> is_nan a \<and> \<not> is_inf a \<and> \<not> is_nan b \<and> \<not> is_inf b \<longrightarrow>
                bounded_by 4 (c_atan2 pf t a b)))"

text \<open>The negation of a floating expression, and equality up to the sign.\<close>

definition fp_neg :: "cval \<Rightarrow> cval" where
  "fp_neg a = FP (ty a) (ieee_neg (num a))"

definition same_magnitude :: "cval \<Rightarrow> cval \<Rightarrow> bool" where
  "same_magnitude a b = (b = a \<or> b = fp_neg a)"

section \<open>A sample platform\<close>

text \<open>
  A concrete platform, at which the statements below are instantiated: assertions are
  enabled, arithmetic is exact (no rounding), the latitude transform is the identity
  (the planar frame is then the equirectangular one), and the mathematical library is
  a small rational one: square roots to 24 binary places, sine and cosine by their
  Taylor polynomials of degree 5 and 4 (clamped to \<open>[-1, 1]\<close>), the arc tangent by a
  rational approximation, and \<open>pow\<close> for the exponent 2 only.
\<close>

fun sqrt_bits :: "nat \<Rightarrow> int \<Rightarrow> int \<Rightarrow> int" where
  "sqrt_bits 0 n r = r"
| "sqrt_bits (Suc k) n r =
     (if (r + 2 ^ k) * (r + 2 ^ k) \<le> n then sqrt_bits k n (r + 2 ^ k) else sqrt_bits k n r)"

definition sample_sqrt :: "ieee \<Rightarrow> ieee" where
  "sample_sqrt a =
     (case a of
        Fin q \<Rightarrow> (if q < 0 then NaN
                  else Fin (of_int (sqrt_bits 48 \<lfloor>q * 2 ^ 48\<rfloor> 0) / 2 ^ 24))
      | NZero \<Rightarrow> NZero
      | PInf \<Rightarrow> PInf
      | _ \<Rightarrow> NaN)"

definition clamp1 :: "rat \<Rightarrow> rat" where
  "clamp1 q = max (- 1) (min 1 q)"

definition sample_cos :: "ieee \<Rightarrow> ieee" where
  "sample_cos a =
     (if is_nan a \<or> is_inf a then NaN
      else Fin (clamp1 (1 - rat_of a * rat_of a / 2 +
                        rat_of a * rat_of a * rat_of a * rat_of a / 24)))"

definition sample_sin_abs :: "ieee \<Rightarrow> ieee" where
  "sample_sin_abs a =
     (if is_nan a \<or> is_inf a then NaN
      else Fin (clamp1 (rat_of a - rat_of a * rat_of a * rat_of a / 6 +
                        rat_of a * rat_of a * rat_of a * rat_of a * rat_of a / 120)))"

definition sample_sin :: "ieee \<Rightarrow> ieee" where
  "sample_sin a = (if is_neg a then ieee_neg (sample_sin_abs (ieee_neg a)) else sample_sin_abs a)"

definition sample_atan2 :: "ieee \<Rightarrow> ieee \<Rightarrow> ieee" where
  "sample_atan2 a b =
     (if is_nan a \<or> is_nan b then NaN
      else if is_inf a \<or> is_inf b \<or> rat_of b = 0
      then (if is_zero a then a else if is_neg a then Fin (- 11 / 7) else Fin (11 / 7))
      else (let z = rat_of a / rat_of b;
                t = (if \<bar>z\<bar> \<le> 1 then z / (1 + 7 / 25 * (z * z))
                     else (if 0 < z then 11 / 7 else - 11 / 7) - z / (z * z + 7 / 25));
                v = (if 0 < rat_of b then t else if is_neg a then t - 22 / 7 else t + 22 / 7)
            in if v = 0 then signed_zero (is_neg a)
               else Fin (max (- 22 / 7) (min (22 / 7) v))))"

definition sample_pow :: "ieee \<Rightarrow> ieee \<Rightarrow> ieee" where
  "sample_pow a b = (if b = Fin 2 then ieee_mul Fin a a else NaN)"

definition sample_platform :: platform where
  "sample_platform =
     \<lparr> NDEBUG = False,
       precision_type = Single,
       rnd = (\<lambda>t. Fin),
       overload_type = Double,
       lat2y = (\<lambda>a. FP Single (num a)),
       y2lat = (\<lambda>a. FP Single (num a)),
       c_sin = (\<lambda>t. sample_sin),
       c_cos = (\<lambda>t. sample_cos),
       c_sqrt = (\<lambda>t. sample_sqrt),
       c_atan2 = (\<lambda>t. sample_atan2),
       c_pow = (\<lambda>t. sample_pow) \<rparr>"

section \<open>Integer vectors: the cross product\<close>

text \<open>
  Claim C10. The cross product of two integer vectors is anti-commutative in arithmetic
  modulo \<open>2 ^ 64\<close>: \<open>a * b = - (b * a)\<close>, and \<open>a * a = 0\<close> for every vector.
\<close>

theorem vec_cross_anticommutative:
  "vec_cross a b = - vec_cross b a \<and> vec_cross a a = 0"
  by (simp add: vec_cross_def mult.commute)

section \<open>Lemmas on values and expressions\<close>

subsection \<open>Values\<close>

lemma special_cases: "special a \<longleftrightarrow> a = NaN \<or> a = PInf \<or> a = NInf"
  by (auto simp: special_def is_nan_def is_inf_def)

lemma ieee_sub_self: "ieee_sub r a a = Fin 0 \<or> ieee_sub r a a = NaN"
  by (cases a) (auto simp: ieee_sub_def ieee_add_def is_inf_def is_nan_def signed_zero_def)

lemma ieee_mul_commute: "ieee_mul r a b = ieee_mul r b a"
  by (cases "is_neg a"; cases "is_neg b")
     (simp_all add: ieee_mul_def mult.commute disj_commute conj_commute)

lemma ieee_add_commute: "ieee_add r a b = ieee_add r b a"
  by (auto simp: ieee_add_def add.commute is_inf_def conj_commute)

lemma div_by_zero_special: "b = Fin 0 \<or> b = NaN \<Longrightarrow> special (ieee_div r a b)"
  by (cases a)
     (auto simp: ieee_div_def special_cases is_nan_def is_inf_def is_zero_def signed_inf_def)

lemma mul_special_left: "special a \<Longrightarrow> special (ieee_mul r a b)"
  by (auto simp: ieee_mul_def special_cases is_nan_def is_inf_def is_zero_def signed_inf_def)

lemma sub_special_right: "special b \<Longrightarrow> special (ieee_sub r a b)"
  by (cases a) (auto simp: ieee_sub_def ieee_add_def special_cases is_nan_def is_inf_def)

lemma div_special_left: "special a \<Longrightarrow> special (ieee_div r a b)"
  by (auto simp: ieee_div_def special_cases is_nan_def is_inf_def signed_inf_def)

lemma conv_special: "special a \<Longrightarrow> ieee_conv r a = a"
  by (auto simp: ieee_conv_def special_cases)

lemma abs_special_not_lt: "special a \<Longrightarrow> \<not> ieee_lt (ieee_abs a) b"
  by (auto simp: ieee_lt_def special_cases is_nan_def is_inf_def)

lemma abs_zero_not_gt: "a = Fin 0 \<or> a = NaN \<Longrightarrow> \<not> ieee_lt (Fin (1 / 8388608)) (ieee_abs a)"
  by (auto simp: ieee_lt_def is_nan_def is_inf_def)

lemma inf_not_snapped:
  "is_inf a \<Longrightarrow>
   \<not> ieee_le (ieee_abs a) (Fin e) \<and> \<not> ieee_le (ieee_abs (ieee_sub r a (Fin 1))) (Fin e)"
  by (auto simp: ieee_le_def ieee_sub_def ieee_add_def is_nan_def is_inf_def)

subsection \<open>Rounding\<close>

lemma rounding_exactD:
  "rounding_exact pf \<Longrightarrow> n \<noteq> 0 \<Longrightarrow> \<bar>n\<bar> \<le> 2 ^ 24 \<Longrightarrow> k \<le> 64 \<Longrightarrow>
   rnd pf t (of_int n / 2 ^ k) = Fin (of_int n / 2 ^ k) \<and>
   rnd pf t (of_int n * 2 ^ k) = Fin (of_int n * 2 ^ k)"
  unfolding rounding_exact_def by blast

lemma rounding_monotoneD:
  "rounding_monotone pf \<Longrightarrow> p \<noteq> 0 \<Longrightarrow> q \<noteq> 0 \<Longrightarrow> p \<le> q \<Longrightarrow>
   ieee_le (rnd pf t p) (rnd pf t q)"
  unfolding rounding_monotone_def by blast

subsection \<open>Expressions\<close>

lemma flt_dbl_simps:
  "num (flt q) = Fin q" "num (dbl q) = Fin q" "ty (flt q) = Single" "ty (dbl q) = Double"
  by (simp_all add: flt_def dbl_def)

lemma to_float_special: "special (num a) \<Longrightarrow> num (to_float pf a) = num a"
  by (simp add: to_float_def conv_special)

lemma fp_mul_commute: "fp_mul pf a b = fp_mul pf b a"
  by (simp add: fp_mul_def arith_def usual_def ieee_mul_commute disj_commute)

lemma fp_sub_self: "num (fp_sub pf a a) = Fin 0 \<or> num (fp_sub pf a a) = NaN"
  using ieee_sub_self by (simp add: fp_sub_def arith_def)

lemma coordinate_eta: "\<lparr> lat = lat S, lon = lon S \<rparr> = (S :: FixedPointCoordinate)"
  by (cases S) simp

lemma map_sum_BOOST_ASSERT:
  "map_sum id f (BOOST_ASSERT pf ok m) = BOOST_ASSERT pf ok (map_sum id f m)"
  by (simp add: BOOST_ASSERT_def)

lemma map_sum_and_then:
  "map_sum id f (and_then m k) = and_then m (\<lambda>v. map_sum id f (k v))"
  by (cases m) (simp_all add: and_then_def)

subsection \<open>The two projection variants compute the same\<close>

lemma raw_agree:
  "ComputePerpendicularDistance3_raw pf P S T = ComputePerpendicularDistance5_raw pf S T P"
  by (simp add: ComputePerpendicularDistance3_raw_def ComputePerpendicularDistance5_raw_def)

lemma fallback_agree:
  "ComputePerpendicularDistance3_fallback pf P S T =
   ComputePerpendicularDistance5_fallback pf S T P"
  by (simp add: ComputePerpendicularDistance3_fallback_def
      ComputePerpendicularDistance5_fallback_def raw_agree)

lemma ratio_agree:
  "ComputePerpendicularDistance3_ratio pf P S T = ComputePerpendicularDistance5_ratio pf S T P"
  by (simp add: ComputePerpendicularDistance3_ratio_def ComputePerpendicularDistance5_ratio_def
      raw_agree)

lemma nearest_agree:
  "ComputePerpendicularDistance3_nearest pf P S T =
   ComputePerpendicularDistance5_nearest pf S T P"
  by (simp add: ComputePerpendicularDistance3_nearest_def
      ComputePerpendicularDistance5_nearest_def raw_agree ratio_agree coordinate_eta Let_def)

subsection \<open>Degenerate segments\<close>

lemma degenerate_raw:
  "ComputePerpendicularDistance5_raw pf S S P =
     (to_float pf (lat2y pf (int_div_fp pf (sint (lat S)) (precision pf))),
      to_float pf (int_div_fp pf (sint (lon P)) (precision pf)),
      snd (snd (ComputePerpendicularDistance5_raw pf S S P)))
   \<and> special (num (snd (snd (ComputePerpendicularDistance5_raw pf S S P))))"
proof -
  define c where "c = to_float pf (lat2y pf (int_div_fp pf (sint (lat S)) (precision pf)))"
  define d where "d = to_float pf (int_div_fp pf (sint (lon S)) (precision pf))"
  define yv where "yv = to_float pf (int_div_fp pf (sint (lon P)) (precision pf))"
  define nY0 where "nY0 = to_float pf
                 (fp_div pf (fp_sub pf (fp_mul pf d c) (fp_mul pf c yv))
                    (fp_sub pf (fp_mul pf c d) (fp_mul pf d c)))"
  define nY where
    "nY = (if fp_lt (fp_abs nY0) (fp_div pf (dbl 1) (precision pf)) then flt 0 else nY0)"
  define ratio where "ratio = to_float pf (fp_div pf (fp_sub pf c (fp_mul pf nY c)) c)"
  have cond: "\<not> fp_gt (fp_abs (fp_sub pf c c)) FLT_EPSILON"
    using fp_sub_self [of pf c] abs_zero_not_gt [of "num (fp_sub pf c c)"]
    by (simp add: fp_gt_def fp_abs_def FLT_EPSILON_def flt_def)
  have raw: "ComputePerpendicularDistance5_raw pf S S P = (c, yv, ratio)"
    using cond unfolding ratio_def nY_def nY0_def c_def d_def yv_def
    by (simp add: ComputePerpendicularDistance5_raw_def Let_def)
  have den: "num (fp_sub pf (fp_mul pf c d) (fp_mul pf d c)) = Fin 0 \<or>
             num (fp_sub pf (fp_mul pf c d) (fp_mul pf d c)) = NaN"
    using fp_sub_self [of pf "fp_mul pf c d"] by (simp add: fp_mul_commute [of pf d c])
  have s0: "special (num nY0)"
  proof -
    have "special (num (fp_div pf (fp_sub pf (fp_mul pf d c) (fp_mul pf c yv))
                    (fp_sub pf (fp_mul pf c d) (fp_mul pf d c))))"
      using den by (simp add: fp_div_def arith_def div_by_zero_special)
    then show ?thesis by (simp add: nY0_def to_float_special)
  qed
  have nY: "nY = nY0"
    using abs_special_not_lt [OF s0] by (simp add: nY_def fp_lt_def fp_abs_def)
  have "special (num (fp_div pf (fp_sub pf c (fp_mul pf nY c)) c))"
    using s0 unfolding nY
    by (simp add: fp_div_def fp_sub_def fp_mul_def arith_def div_special_left sub_special_right
        mul_special_left)
  then have "special (num ratio)"
    by (simp add: ratio_def to_float_special)
  with raw show ?thesis by (simp add: c_def yv_def)
qed

lemma degenerate_ratio:
  "num (ComputePerpendicularDistance5_ratio pf S S P) \<in> {Fin 0, Fin 1, PInf, NInf}"
proof -
  define r where "r = snd (snd (ComputePerpendicularDistance5_raw pf S S P))"
  have sp: "special (num r)" using degenerate_raw [of pf S P] by (simp add: r_def)
  show ?thesis
  proof (cases "fp_isnan r")
    case True
    then show ?thesis
      by (simp add: ComputePerpendicularDistance5_ratio_def r_def [symmetric] flt_dbl_simps)
  next
    case False
    with sp have inf: "is_inf (num r)" by (simp add: special_def fp_isnan_def)
    from inf_not_snapped [OF inf, of "1 / 8388608" "rnd pf Double"] False
    have "ComputePerpendicularDistance5_ratio pf S S P = r"
      by (simp add: ComputePerpendicularDistance5_ratio_def r_def [symmetric] Let_def fp_le_def
          fp_abs_def fp_sub_def arith_def usual_def FLT_EPSILON_def flt_dbl_simps)
    with inf show ?thesis by (auto simp: is_inf_def)
  qed
qed

lemma degenerate_nearest: "ComputePerpendicularDistance5_nearest pf S S P = Inr S"
  using degenerate_ratio [of pf S P]
  by (auto simp: ComputePerpendicularDistance5_nearest_def Let_def fp_le_def fp_ge_def ieee_le_def
      is_nan_def is_inf_def flt_dbl_simps)

lemma degenerate_ratio_not_nan: "\<not> fp_isnan (ComputePerpendicularDistance5_ratio pf S S P)"
  using degenerate_ratio [of pf S P] by (auto simp: fp_isnan_def is_nan_def)

section \<open>Evaluation at the sample platform\<close>

lemma sample_fields:
  "NDEBUG sample_platform = False" "precision_type sample_platform = Single"
  "rnd sample_platform = (\<lambda>t. Fin)" "overload_type sample_platform = Double"
  "lat2y sample_platform = (\<lambda>a. FP Single (num a))"
  "y2lat sample_platform = (\<lambda>a. FP Single (num a))"
  "c_sin sample_platform = (\<lambda>t. sample_sin)" "c_cos sample_platform = (\<lambda>t. sample_cos)"
  "c_sqrt sample_platform = (\<lambda>t. sample_sqrt)" "c_atan2 sample_platform = (\<lambda>t. sample_atan2)"
  "c_pow sample_platform = (\<lambda>t. sample_pow)"
  by (simp_all add: sample_platform_def)

lemma sqrt_bits_numeral:
  "sqrt_bits (numeral k) n r =
     (if (r + 2 ^ pred_numeral k) * (r + 2 ^ pred_numeral k) \<le> n
      then sqrt_bits (pred_numeral k) n (r + 2 ^ pred_numeral k)
      else sqrt_bits (pred_numeral k) n r)"
  by (simp add: numeral_eq_Suc)

lemmas fp_defs = fp_add_def fp_sub_def fp_mul_def fp_div_def arith_def usual_def fp_abs_def
  fp_lt_def fp_le_def fp_gt_def fp_ge_def fp_ne_def fp_isnan_def to_float_def to_double_def
  flt_def dbl_def double_literal_def FLT_EPSILON_def M_PI_def of_int_as_def int_div_fp_def
  int_sub_fp_def int_mul_fp_def int_gt_fp_def int_lt_fp_def to_int_def c_call_def std_call_def std_call2_def precision_def
  COORDINATE_PRECISION_def

lemmas ieee_defs = ieee_add_def ieee_sub_def ieee_mul_def ieee_div_def ieee_le_def ieee_lt_def
  ieee_eq_def ieee_conv_def ieee_of_int_def ieee_to_int_def trunc_rat_def is_nan_def is_inf_def
  is_zero_def signed_zero_def signed_inf_def

lemmas err_defs = BOOST_ASSERT_def and_then_def defined_def int_result_def

lemmas sample_eval = sample_fields sample_sin_def sample_sin_abs_def sample_cos_def clamp1_def
  sample_atan2_def sample_pow_def sample_sqrt_def sqrt_bits_numeral max_def min_def

lemma sample_rounding: "rounding_monotone sample_platform \<and> rounding_exact sample_platform \<and>
    rounding_odd sample_platform"
  by (simp add: rounding_monotone_def rounding_exact_def rounding_odd_def sample_fields
      ieee_le_def is_nan_def is_inf_def)


section \<open>Coordinates: sentinel and validity\<close>

lemma sint_int_min: "sint int_min = - 2147483648"
  by (simp add: int_min_def)

lemma not_isSet_cases: "\<not> isSet c \<Longrightarrow> lat c = int_min \<or> lon c = int_min"
  by (auto simp: isSet_def)

lemma int_min_exact:
  "rounding_exact pf \<Longrightarrow> of_int_as pf t (- 2147483648) = FP t (Fin (- 2147483648))"
  using rounding_exactD [of pf "- 1" 31 t] by (simp add: of_int_as_def ieee_of_int_def)

lemma usual_same: "usual t t = t"
  by (cases t) (simp_all add: usual_def)

lemma lower_bounds_exact:
  assumes exact: "rounding_exact pf"
  shows "int_mul_fp pf (- 90) (precision pf) = FP (precision_type pf) (Fin (- 90000000))"
    and "int_mul_fp pf (- 180) (precision pf) = FP (precision_type pf) (Fin (- 180000000))"
proof -
  let ?t = "precision_type pf"
  have a: "rnd pf ?t (- 90) = Fin (- 90)" "rnd pf ?t (- 180) = Fin (- 180)"
    using rounding_exactD [OF exact, of "- 90" 0 ?t] rounding_exactD [OF exact, of "- 180" 0 ?t]
    by simp_all
  have b: "rnd pf ?t (- 90000000) = Fin (- 90000000)"
    "rnd pf ?t (- 180000000) = Fin (- 180000000)"
    using rounding_exactD [OF exact, of "- 703125" 7 ?t]
      rounding_exactD [OF exact, of "- 703125" 8 ?t]
    by simp_all
  show "int_mul_fp pf (- 90) (precision pf) = FP ?t (Fin (- 90000000))"
    by (simp add: int_mul_fp_def precision_def COORDINATE_PRECISION_def of_int_as_def
        ieee_of_int_def fp_mul_def arith_def usual_same ieee_mul_def is_nan_def is_inf_def
        is_zero_def a b)
  show "int_mul_fp pf (- 180) (precision pf) = FP ?t (Fin (- 180000000))"
    by (simp add: int_mul_fp_def precision_def COORDINATE_PRECISION_def of_int_as_def
        ieee_of_int_def fp_mul_def arith_def usual_same ieee_mul_def is_nan_def is_inf_def
        is_zero_def a b)
qed

lemma int_min_below:
  assumes exact: "rounding_exact pf"
  shows "int_lt_fp pf (sint int_min) (int_mul_fp pf (- 90) (precision pf))"
    and "int_lt_fp pf (sint int_min) (int_mul_fp pf (- 180) (precision pf))"
  by (simp_all add: lower_bounds_exact [OF exact] int_lt_fp_def sint_int_min
      int_min_exact [OF exact] fp_lt_def ieee_lt_def is_nan_def is_inf_def)

text \<open>
  Claim C9. On a platform whose rounding leaves short numbers as they are, a coordinate
  for which \<open>isSet\<close> is false (one of its fields holds the minimum 32-bit integer) is not
  valid either; in particular the default-constructed coordinate and every coordinate
  after \<open>Reset\<close> are not valid. (The comparisons of \<open>isValid\<close> are floating comparisons:
  the minimum integer, \<open>- 2 ^ 31\<close>, and the bounds are converted exactly.)
\<close>

theorem unset_not_valid:
  "rounding_exact pf \<Longrightarrow>
   (\<not> isSet c \<longrightarrow> \<not> isValid pf c) \<and> \<not> isValid pf default_coordinate \<and>
   \<not> isValid pf (Reset c)"
proof -
  assume exact: "rounding_exact pf"
  have la: "\<not> isValid pf d" if "lat d = int_min" for d
    using that int_min_below(1) [OF exact] by (simp add: isValid_def)
  have lo: "\<not> isValid pf d" if "lon d = int_min" for d
    using that int_min_below(2) [OF exact] by (simp add: isValid_def)
  have a: "\<not> isValid pf c" if "\<not> isSet c"
    using not_isSet_cases [OF that] la lo by blast
  have b: "\<not> isValid pf default_coordinate"
    by (rule la) (simp add: default_coordinate_def)
  have c: "\<not> isValid pf (Reset c)"
    by (rule la) (simp add: Reset_def)
  from a b c show ?thesis by blast
qed

theorem unset_not_valid_witness:
  "rounding_exact sample_platform \<and> \<not> isSet \<lparr> lat = 5, lon = int_min \<rparr> \<and>
   \<not> isValid sample_platform \<lparr> lat = 5, lon = int_min \<rparr>"
proof -
  have h: "\<not> isSet \<lparr> lat = 5, lon = int_min \<rparr>" by (simp add: isSet_def)
  from sample_rounding have e: "rounding_exact sample_platform" by simp
  from unset_not_valid [OF e, of "\<lparr> lat = 5, lon = int_min \<rparr>"] h e show ?thesis by blast
qed

lemma sample_distance_1:
  "ApproximateEuclideanDistance sample_platform
     \<lparr>lat = 0, lon = 181000000\<rparr> \<lparr>lat = 0, lon = 0\<rparr> =
   Inr (FP Single (Fin (10554945163568054893 / 524288000000)))"
  unfolding ApproximateEuclideanDistance_def ApproximateEuclideanDistance4_def Let_def
  by (simp add: fp_defs ieee_defs err_defs sample_eval int_min_def)

lemma sample_distance_2:
  "ApproximateEuclideanDistance sample_platform
     \<lparr>lat = 0, lon = 1000000\<rparr> \<lparr>lat = 0, lon = 0\<rparr> =
   Inr (FP Single (Fin (233257932922146419 / 2097152000000)))"
  unfolding ApproximateEuclideanDistance_def ApproximateEuclideanDistance4_def Let_def
  by (simp add: fp_defs ieee_defs err_defs sample_eval int_min_def)

lemma valid_samples:
  "isValid sample_platform \<lparr>lat = 0, lon = 0\<rparr>"
  "\<not> isValid sample_platform \<lparr>lat = 0, lon = 181000000\<rparr>"
  "isValid sample_platform \<lparr>lat = 0, lon = 1000000\<rparr>"
  by (simp_all add: isValid_def fp_defs ieee_defs sample_fields)

section \<open>Segment projection: the two variants\<close>

lemma guarded_distance:
  "map_sum id fst (ComputePerpendicularDistance5 pf S T P) =
   BOOST_ASSERT pf (isValid pf P) (ComputePerpendicularDistance3 pf P S T)"
  by (simp add: ComputePerpendicularDistance3_def ComputePerpendicularDistance5_def
      ratio_agree nearest_agree map_sum_BOOST_ASSERT map_sum_and_then Let_def)

text \<open>
  Claim C1. For every query point \<open>P\<close> and all segment endpoints \<open>S\<close>, \<open>T\<close>, on every
  platform, the two variants perform the same computation: the foot of the perpendicular
  and the ratio as first computed, the ratio after the fallback and the snapping, and the
  nearest location are equal. The distance of the variant with output parameters is the
  result of the distance-only variant behind the one assertion that only the former makes
  (line 232, the query point is valid). So whenever the variant with output parameters
  returns a distance, the distance-only variant returns the same distance; and where the
  query point is valid (the precondition of both) or assertions are compiled out, the two
  results are the same, the failures included.
\<close>

theorem projection_variants_agree:
  "ComputePerpendicularDistance3_raw pf P S T = ComputePerpendicularDistance5_raw pf S T P \<and>
   ComputePerpendicularDistance3_ratio pf P S T = ComputePerpendicularDistance5_ratio pf S T P \<and>
   ComputePerpendicularDistance3_nearest pf P S T =
     ComputePerpendicularDistance5_nearest pf S T P \<and>
   map_sum id fst (ComputePerpendicularDistance5 pf S T P) =
     BOOST_ASSERT pf (isValid pf P) (ComputePerpendicularDistance3 pf P S T) \<and>
   (\<forall>dist nearest ratio.
      ComputePerpendicularDistance5 pf S T P = Inr (dist, nearest, ratio) \<longrightarrow>
      ComputePerpendicularDistance3 pf P S T = Inr dist) \<and>
   (NDEBUG pf \<or> isValid pf P \<longrightarrow>
      ComputePerpendicularDistance3 pf P S T =
        map_sum id fst (ComputePerpendicularDistance5 pf S T P))"
proof -
  note g = guarded_distance [of pf S T P]
  have returns: "ComputePerpendicularDistance3 pf P S T = Inr dist"
    if "ComputePerpendicularDistance5 pf S T P = Inr (dist, nearest, ratio)"
    for dist nearest ratio
  proof -
    from that g have "BOOST_ASSERT pf (isValid pf P) (ComputePerpendicularDistance3 pf P S T) =
        Inr dist"
      by simp
    then show ?thesis by (simp add: BOOST_ASSERT_def split: if_splits)
  qed
  have same: "ComputePerpendicularDistance3 pf P S T =
        map_sum id fst (ComputePerpendicularDistance5 pf S T P)"
    if "NDEBUG pf \<or> isValid pf P"
    using that g by (simp add: BOOST_ASSERT_def)
  from raw_agree [of pf P S T] ratio_agree [of pf P S T] nearest_agree [of pf P S T] g returns
    same
  show ?thesis by blast
qed

section \<open>Segment projection: degenerate segments\<close>

lemma degenerate_result:
  "ComputePerpendicularDistance5 pf S S P =
     BOOST_ASSERT pf (isValid pf P) (
     BOOST_ASSERT pf (isValid pf S) (
     and_then (ApproximateEuclideanDistance pf P S) (\<lambda>dist.
     BOOST_ASSERT pf (fp_le (dbl 0) dist) (
     Inr (dist, S, ComputePerpendicularDistance5_ratio pf S S P)))))"
  using degenerate_ratio_not_nan [of pf S P]
  by (simp add: ComputePerpendicularDistance5_def degenerate_nearest BOOST_ASSERT_def
      and_then_def Let_def)

text \<open>
  Claim C2. For a segment whose source and target are the same coordinate \<open>S\<close>, on
  every platform and for every query point \<open>P\<close>: the ratio is an infinity or is resolved
  by the not-a-number fallback, so the nearest location selected is \<open>S\<close>; the function
  returns the distance \<open>ApproximateEuclideanDistance(P, S)\<close> with the nearest location \<open>S\<close>
  behind its own assertions and nothing else (the query point is valid, the nearest
  location is valid, the distance is not negative); whenever it returns, its nearest
  location is \<open>S\<close> and its distance is that distance.
\<close>

theorem degenerate_segment:
  "ComputePerpendicularDistance5_nearest pf S S P = Inr S \<and>
   ComputePerpendicularDistance5 pf S S P =
     BOOST_ASSERT pf (isValid pf P) (
     BOOST_ASSERT pf (isValid pf S) (
     and_then (ApproximateEuclideanDistance pf P S) (\<lambda>dist.
     BOOST_ASSERT pf (fp_le (dbl 0) dist) (
     Inr (dist, S, ComputePerpendicularDistance5_ratio pf S S P))))) \<and>
   (\<forall>dist nearest ratio.
      ComputePerpendicularDistance5 pf S S P = Inr (dist, nearest, ratio) \<longrightarrow>
      nearest = S \<and> ApproximateEuclideanDistance pf P S = Inr dist)"
proof -
  have "nearest = S \<and> ApproximateEuclideanDistance pf P S = Inr dist"
    if "ComputePerpendicularDistance5 pf S S P = Inr (dist, nearest, ratio)"
    for dist nearest ratio
    using that unfolding degenerate_result
    by (auto simp: BOOST_ASSERT_def and_then_def split: if_splits sum.splits)
  with degenerate_nearest [of pf S P] degenerate_result [of pf S P] show ?thesis by blast
qed

lemma sample_raw_degenerate:
  "ComputePerpendicularDistance5_raw sample_platform \<lparr>lat = 0, lon = 0\<rparr> \<lparr>lat = 0, lon = 0\<rparr>
     \<lparr>lat = 0, lon = 1000000\<rparr> =
   (FP Single (Fin 0), FP Single (Fin 1), FP Single NaN)"
  unfolding ComputePerpendicularDistance5_raw_def Let_def
  by (simp add: fp_defs ieee_defs sample_eval)

lemma sample_degenerate:
  "ComputePerpendicularDistance5 sample_platform \<lparr>lat = 0, lon = 0\<rparr> \<lparr>lat = 0, lon = 0\<rparr>
     \<lparr>lat = 0, lon = 1000000\<rparr> =
   Inr (FP Single (Fin (233257932922146419 / 2097152000000)), \<lparr>lat = 0, lon = 0\<rparr>, flt 0)"
proof -
  have r: "ComputePerpendicularDistance5_ratio sample_platform \<lparr>lat = 0, lon = 0\<rparr>
      \<lparr>lat = 0, lon = 0\<rparr> \<lparr>lat = 0, lon = 1000000\<rparr> = flt 0"
    by (simp add: ComputePerpendicularDistance5_ratio_def sample_raw_degenerate fp_isnan_def
        is_nan_def)
  show ?thesis
    by (simp add: degenerate_result r sample_distance_2 valid_samples BOOST_ASSERT_def
        and_then_def fp_le_def ieee_le_def is_nan_def is_inf_def flt_dbl_simps)
qed

theorem projection_variants_agree_witness:
  "isValid sample_platform \<lparr>lat = 0, lon = 1000000\<rparr> \<and>
   ComputePerpendicularDistance5 sample_platform \<lparr>lat = 0, lon = 0\<rparr> \<lparr>lat = 0, lon = 0\<rparr>
     \<lparr>lat = 0, lon = 1000000\<rparr> =
     Inr (FP Single (Fin (233257932922146419 / 2097152000000)), \<lparr>lat = 0, lon = 0\<rparr>, flt 0) \<and>
   ComputePerpendicularDistance3 sample_platform \<lparr>lat = 0, lon = 1000000\<rparr>
     \<lparr>lat = 0, lon = 0\<rparr> \<lparr>lat = 0, lon = 0\<rparr> =
     Inr (FP Single (Fin (233257932922146419 / 2097152000000)))"
proof -
  let ?S = "\<lparr>lat = 0, lon = 0\<rparr> :: FixedPointCoordinate"
  let ?P = "\<lparr>lat = 0, lon = 1000000\<rparr> :: FixedPointCoordinate"
  from projection_variants_agree [of sample_platform ?P ?S ?S] sample_degenerate
  have "ComputePerpendicularDistance3 sample_platform ?P ?S ?S =
      Inr (FP Single (Fin (233257932922146419 / 2097152000000)))"
    by blast
  with sample_degenerate valid_samples show ?thesis by blast
qed

theorem degenerate_segment_witness:
  "ApproximateEuclideanDistance sample_platform \<lparr>lat = 0, lon = 1000000\<rparr> \<lparr>lat = 0, lon = 0\<rparr> =
     Inr (FP Single (Fin (233257932922146419 / 2097152000000))) \<and>
   ComputePerpendicularDistance5_nearest sample_platform \<lparr>lat = 0, lon = 0\<rparr>
     \<lparr>lat = 0, lon = 0\<rparr> \<lparr>lat = 0, lon = 1000000\<rparr> = Inr \<lparr>lat = 0, lon = 0\<rparr> \<and>
   ComputePerpendicularDistance5 sample_platform \<lparr>lat = 0, lon = 0\<rparr> \<lparr>lat = 0, lon = 0\<rparr>
     \<lparr>lat = 0, lon = 1000000\<rparr> =
     Inr (FP Single (Fin (233257932922146419 / 2097152000000)), \<lparr>lat = 0, lon = 0\<rparr>, flt 0)"
proof -
  let ?S = "\<lparr>lat = 0, lon = 0\<rparr> :: FixedPointCoordinate"
  let ?P = "\<lparr>lat = 0, lon = 1000000\<rparr> :: FixedPointCoordinate"
  note inst = degenerate_segment [of sample_platform ?S ?P]
  from inst have n: "ComputePerpendicularDistance5_nearest sample_platform ?S ?S ?P = Inr ?S"
    by (rule conjunct1)
  from inst sample_degenerate
  have "ApproximateEuclideanDistance sample_platform ?P ?S =
      Inr (FP Single (Fin (233257932922146419 / 2097152000000)))"
    by blast
  with n sample_degenerate show ?thesis by blast
qed

section \<open>Segment projection: the not-a-number fallback\<close>

lemma fallback_not_nan: "\<not> fp_isnan (ComputePerpendicularDistance5_fallback pf S T P)"
  by (simp add: ComputePerpendicularDistance5_fallback_def Let_def fp_isnan_def is_nan_def
      flt_dbl_simps)

lemma ratio_from_fallback:
  "ComputePerpendicularDistance5_ratio pf S T P =
     (let f = ComputePerpendicularDistance5_fallback pf S T P
      in if fp_isnan (snd (snd (ComputePerpendicularDistance5_raw pf S T P))) then f
         else if fp_le (fp_abs f) FLT_EPSILON then flt 0
         else if fp_le (fp_abs (fp_sub pf f (dbl 1))) FLT_EPSILON then flt 1
         else f)"
  by (simp add: ComputePerpendicularDistance5_ratio_def ComputePerpendicularDistance5_fallback_def
      Let_def)

lemma ratio_not_nan: "\<not> fp_isnan (ComputePerpendicularDistance5_ratio pf S T P)"
  using fallback_not_nan [of pf S T P]
  by (simp add: ratio_from_fallback Let_def fp_isnan_def is_nan_def flt_dbl_simps)

text \<open>
  Claim C3. In both variants, a ratio that is first computed as a not-a-number is resolved
  to exactly 1 when the query point equals the target field by field and to exactly 0
  otherwise; the ratio used for the selection of the nearest location is never a
  not-a-number, and the ratio the variant with output parameters hands to its caller is
  that ratio.
\<close>

theorem nan_ratio_resolved:
  "(fp_isnan (snd (snd (ComputePerpendicularDistance3_raw pf P S T))) \<longrightarrow>
      ComputePerpendicularDistance3_ratio pf P S T =
        (if lat T = lat P \<and> lon T = lon P then flt 1 else flt 0)) \<and>
   (fp_isnan (snd (snd (ComputePerpendicularDistance5_raw pf S T P))) \<longrightarrow>
      ComputePerpendicularDistance5_ratio pf S T P =
        (if lat T = lat P \<and> lon T = lon P then flt 1 else flt 0)) \<and>
   \<not> fp_isnan (ComputePerpendicularDistance3_ratio pf P S T) \<and>
   \<not> fp_isnan (ComputePerpendicularDistance5_ratio pf S T P) \<and>
   (\<forall>dist nearest ratio.
      ComputePerpendicularDistance5 pf S T P = Inr (dist, nearest, ratio) \<longrightarrow>
      ratio = ComputePerpendicularDistance5_ratio pf S T P \<and> \<not> fp_isnan ratio)"
proof -
  have a: "fp_isnan (snd (snd (ComputePerpendicularDistance5_raw pf S T P))) \<longrightarrow>
      ComputePerpendicularDistance5_ratio pf S T P =
        (if lat T = lat P \<and> lon T = lon P then flt 1 else flt 0)"
    by (simp add: ComputePerpendicularDistance5_ratio_def Let_def)
  have b: "\<forall>dist nearest ratio.
      ComputePerpendicularDistance5 pf S T P = Inr (dist, nearest, ratio) \<longrightarrow>
      ratio = ComputePerpendicularDistance5_ratio pf S T P"
    by (auto simp: ComputePerpendicularDistance5_def BOOST_ASSERT_def and_then_def Let_def
        split: if_splits sum.splits)
  from b ratio_not_nan [of pf S T P] have c: "\<forall>dist nearest ratio.
      ComputePerpendicularDistance5 pf S T P = Inr (dist, nearest, ratio) \<longrightarrow>
      ratio = ComputePerpendicularDistance5_ratio pf S T P \<and> \<not> fp_isnan ratio"
    by blast
  from a c ratio_not_nan [of pf S T P] show ?thesis
    unfolding raw_agree ratio_agree by blast
qed

lemma sample_raw_nan:
  "ComputePerpendicularDistance5_raw sample_platform \<lparr>lat = 10000000, lon = 0\<rparr>
     \<lparr>lat = 20000000, lon = 0\<rparr> \<lparr>lat = 50000000, lon = 10000\<rparr> =
   (FP Single (Fin 50), FP Single (Fin 0), FP Single NaN)"
  unfolding ComputePerpendicularDistance5_raw_def Let_def
  by (simp add: fp_defs ieee_defs sample_eval)

theorem nan_ratio_resolved_witness:
  "fp_isnan (snd (snd (ComputePerpendicularDistance5_raw sample_platform
      \<lparr>lat = 10000000, lon = 0\<rparr> \<lparr>lat = 20000000, lon = 0\<rparr> \<lparr>lat = 50000000, lon = 10000\<rparr>))) \<and>
   ComputePerpendicularDistance5_ratio sample_platform
      \<lparr>lat = 10000000, lon = 0\<rparr> \<lparr>lat = 20000000, lon = 0\<rparr> \<lparr>lat = 50000000, lon = 10000\<rparr> =
     flt 0 \<and>
   ComputePerpendicularDistance3_ratio sample_platform \<lparr>lat = 50000000, lon = 10000\<rparr>
      \<lparr>lat = 10000000, lon = 0\<rparr> \<lparr>lat = 20000000, lon = 0\<rparr> = flt 0"
proof -
  let ?S = "\<lparr>lat = 10000000, lon = 0\<rparr> :: FixedPointCoordinate"
  let ?T = "\<lparr>lat = 20000000, lon = 0\<rparr> :: FixedPointCoordinate"
  let ?P = "\<lparr>lat = 50000000, lon = 10000\<rparr> :: FixedPointCoordinate"
  have n5: "fp_isnan (snd (snd (ComputePerpendicularDistance5_raw sample_platform ?S ?T ?P)))"
    by (simp add: sample_raw_nan fp_isnan_def is_nan_def)
  then have n3: "fp_isnan (snd (snd (ComputePerpendicularDistance3_raw sample_platform ?P ?S ?T)))"
    by (simp add: raw_agree)
  from nan_ratio_resolved [of sample_platform ?P ?S ?T] n5 n3 show ?thesis
    by simp
qed

section \<open>Segment projection: snapping of the ratio\<close>

lemma rounding_half: "rounding_exact pf \<Longrightarrow> rnd pf t (- 1 / 2) = Fin (- 1 / 2)"
  using rounding_exactD [of pf "- 1" 1 t] by simp

lemma near_zero_far_from_one:
  assumes mono: "rounding_monotone pf" and exact: "rounding_exact pf"
    and near: "ieee_le (ieee_abs v) (Fin (1 / 8388608))"
  shows "\<not> ieee_le (ieee_abs (ieee_sub (rnd pf Double) v (Fin 1))) (Fin (1 / 8388608))"
proof -
  from near have fin: "\<not> is_nan v" "\<not> is_inf v" and small: "\<bar>rat_of v\<bar> \<le> 1 / 8388608"
    by (cases v; simp add: ieee_le_def is_nan_def is_inf_def)+
  let ?d = "rat_of v - 1"
  have d: "?d \<noteq> 0" "?d \<le> - 1 / 2" using small by linarith+
  have sub: "ieee_sub (rnd pf Double) v (Fin 1) = rnd pf Double ?d"
    using fin d by (simp add: ieee_sub_def ieee_add_def is_nan_def is_inf_def)
  from rounding_monotoneD [OF mono d(1) _ d(2), of Double] rounding_half [OF exact, of Double]
  have "ieee_le (rnd pf Double ?d) (Fin (- 1 / 2))" by simp
  then show ?thesis
    unfolding sub by (cases "rnd pf Double ?d"; simp add: ieee_le_def is_nan_def is_inf_def)
qed

lemma snapping5:
  assumes mono: "rounding_monotone pf" and exact: "rounding_exact pf"
  shows "(fp_le (fp_abs (ComputePerpendicularDistance5_fallback pf S T P)) FLT_EPSILON \<longrightarrow>
            ComputePerpendicularDistance5_ratio pf S T P = flt 0 \<and>
            ComputePerpendicularDistance5_nearest pf S T P = Inr S) \<and>
         (fp_le (fp_abs (fp_sub pf (ComputePerpendicularDistance5_fallback pf S T P) (dbl 1)))
              FLT_EPSILON \<longrightarrow>
            ComputePerpendicularDistance5_ratio pf S T P = flt 1 \<and>
            ComputePerpendicularDistance5_nearest pf S T P = Inr T)"
proof -
  define f where "f = ComputePerpendicularDistance5_fallback pf S T P"
  define nan where "nan = fp_isnan (snd (snd (ComputePerpendicularDistance5_raw pf S T P)))"
  have ratio: "ComputePerpendicularDistance5_ratio pf S T P =
      (if nan then f
       else if fp_le (fp_abs f) FLT_EPSILON then flt 0
       else if fp_le (fp_abs (fp_sub pf f (dbl 1))) FLT_EPSILON then flt 1
       else f)"
    by (simp add: ratio_from_fallback f_def nan_def Let_def)
  have f_nan: "nan \<Longrightarrow> f = flt 0 \<or> f = flt 1"
    by (auto simp: f_def nan_def ComputePerpendicularDistance5_fallback_def Let_def)
  have excl: "fp_le (fp_abs f) FLT_EPSILON \<Longrightarrow>
              \<not> fp_le (fp_abs (fp_sub pf f (dbl 1))) FLT_EPSILON"
    using near_zero_far_from_one [OF mono exact, of "num f"]
    by (cases f) (simp add: fp_le_def fp_abs_def fp_sub_def arith_def usual_def FLT_EPSILON_def
        flt_dbl_simps)
  have one: "\<not> fp_le (fp_abs (flt 1)) FLT_EPSILON"
    by (simp add: fp_le_def fp_abs_def FLT_EPSILON_def flt_dbl_simps ieee_le_def is_nan_def
        is_inf_def)
  have zero: "fp_le (fp_abs (flt 0)) FLT_EPSILON"
    by (simp add: fp_le_def fp_abs_def FLT_EPSILON_def flt_dbl_simps ieee_le_def is_nan_def
        is_inf_def)
  have r0: "fp_le (fp_abs f) FLT_EPSILON \<Longrightarrow> ComputePerpendicularDistance5_ratio pf S T P = flt 0"
    using f_nan one by (auto simp: ratio)
  have r1: "fp_le (fp_abs (fp_sub pf f (dbl 1))) FLT_EPSILON \<Longrightarrow>
            ComputePerpendicularDistance5_ratio pf S T P = flt 1"
    using f_nan excl zero by (auto simp: ratio)
  have n0: "ComputePerpendicularDistance5_ratio pf S T P = flt 0 \<Longrightarrow>
            ComputePerpendicularDistance5_nearest pf S T P = Inr S"
    by (simp add: ComputePerpendicularDistance5_nearest_def Let_def fp_le_def fp_ge_def
        ieee_le_def is_nan_def is_inf_def flt_dbl_simps)
  have n1: "ComputePerpendicularDistance5_ratio pf S T P = flt 1 \<Longrightarrow>
            ComputePerpendicularDistance5_nearest pf S T P = Inr T"
    by (simp add: ComputePerpendicularDistance5_nearest_def Let_def fp_le_def fp_ge_def
        ieee_le_def is_nan_def is_inf_def flt_dbl_simps)
  from r0 r1 n0 n1 show ?thesis unfolding f_def by blast
qed

text \<open>
  Claim C5. On a platform whose rounding is monotone and exact on short numbers, in both
  variants: when the ratio after the not-a-number fallback is within
  \<open>FLT_EPSILON\<close> of 0 the ratio used is exactly 0 and the source is selected, and when it
  is within \<open>FLT_EPSILON\<close> of 1 (the difference \<open>ratio - 1.\<close> formed in \<open>double\<close>) the ratio
  used is exactly 1 and the target is selected.
\<close>

theorem ratio_snapping:
  "rounding_monotone pf \<Longrightarrow> rounding_exact pf \<Longrightarrow>
   (fp_le (fp_abs (ComputePerpendicularDistance3_fallback pf P S T)) FLT_EPSILON \<longrightarrow>
      ComputePerpendicularDistance3_ratio pf P S T = flt 0 \<and>
      ComputePerpendicularDistance3_nearest pf P S T = Inr S) \<and>
   (fp_le (fp_abs (fp_sub pf (ComputePerpendicularDistance3_fallback pf P S T) (dbl 1)))
        FLT_EPSILON \<longrightarrow>
      ComputePerpendicularDistance3_ratio pf P S T = flt 1 \<and>
      ComputePerpendicularDistance3_nearest pf P S T = Inr T) \<and>
   (fp_le (fp_abs (ComputePerpendicularDistance5_fallback pf S T P)) FLT_EPSILON \<longrightarrow>
      ComputePerpendicularDistance5_ratio pf S T P = flt 0 \<and>
      ComputePerpendicularDistance5_nearest pf S T P = Inr S) \<and>
   (fp_le (fp_abs (fp_sub pf (ComputePerpendicularDistance5_fallback pf S T P) (dbl 1)))
        FLT_EPSILON \<longrightarrow>
      ComputePerpendicularDistance5_ratio pf S T P = flt 1 \<and>
      ComputePerpendicularDistance5_nearest pf S T P = Inr T)"
  using snapping5 [of pf S T P]
  unfolding fallback_agree ratio_agree nearest_agree by blast

lemma sample_raw_source:
  "ComputePerpendicularDistance5_raw sample_platform \<lparr>lat = 10000000, lon = 1000000\<rparr>
     \<lparr>lat = 20000000, lon = 3000000\<rparr> \<lparr>lat = 10000000, lon = 1000000\<rparr> =
   (FP Single (Fin 10), FP Single (Fin 1), FP Single (Fin 0))"
  unfolding ComputePerpendicularDistance5_raw_def Let_def
  by (simp add: fp_defs ieee_defs sample_eval)

lemma sample_raw_target:
  "ComputePerpendicularDistance5_raw sample_platform \<lparr>lat = 10000000, lon = 1000000\<rparr>
     \<lparr>lat = 20000000, lon = 3000000\<rparr> \<lparr>lat = 20000000, lon = 3000000\<rparr> =
   (FP Single (Fin 20), FP Single (Fin 3), FP Single (Fin 1))"
  unfolding ComputePerpendicularDistance5_raw_def Let_def
  by (simp add: fp_defs ieee_defs sample_eval)

theorem ratio_snapping_witness:
  "rounding_monotone sample_platform \<and> rounding_exact sample_platform \<and>
   fp_le (fp_abs (ComputePerpendicularDistance5_fallback sample_platform
      \<lparr>lat = 10000000, lon = 1000000\<rparr> \<lparr>lat = 20000000, lon = 3000000\<rparr>
      \<lparr>lat = 10000000, lon = 1000000\<rparr>)) FLT_EPSILON \<and>
   ComputePerpendicularDistance5_ratio sample_platform
      \<lparr>lat = 10000000, lon = 1000000\<rparr> \<lparr>lat = 20000000, lon = 3000000\<rparr>
      \<lparr>lat = 10000000, lon = 1000000\<rparr> = flt 0 \<and>
   ComputePerpendicularDistance5_nearest sample_platform
      \<lparr>lat = 10000000, lon = 1000000\<rparr> \<lparr>lat = 20000000, lon = 3000000\<rparr>
      \<lparr>lat = 10000000, lon = 1000000\<rparr> = Inr \<lparr>lat = 10000000, lon = 1000000\<rparr> \<and>
   fp_le (fp_abs (fp_sub sample_platform (ComputePerpendicularDistance3_fallback sample_platform
      \<lparr>lat = 20000000, lon = 3000000\<rparr> \<lparr>lat = 10000000, lon = 1000000\<rparr>
      \<lparr>lat = 20000000, lon = 3000000\<rparr>) (dbl 1))) FLT_EPSILON \<and>
   ComputePerpendicularDistance3_ratio sample_platform
      \<lparr>lat = 20000000, lon = 3000000\<rparr> \<lparr>lat = 10000000, lon = 1000000\<rparr>
      \<lparr>lat = 20000000, lon = 3000000\<rparr> = flt 1 \<and>
   ComputePerpendicularDistance3_nearest sample_platform
      \<lparr>lat = 20000000, lon = 3000000\<rparr> \<lparr>lat = 10000000, lon = 1000000\<rparr>
      \<lparr>lat = 20000000, lon = 3000000\<rparr> = Inr \<lparr>lat = 20000000, lon = 3000000\<rparr>"
proof -
  let ?S = "\<lparr>lat = 10000000, lon = 1000000\<rparr> :: FixedPointCoordinate"
  let ?T = "\<lparr>lat = 20000000, lon = 3000000\<rparr> :: FixedPointCoordinate"
  have f0: "ComputePerpendicularDistance5_fallback sample_platform ?S ?T ?S = flt 0"
    by (simp add: ComputePerpendicularDistance5_fallback_def sample_raw_source fp_isnan_def
        is_nan_def flt_def)
  have f1: "ComputePerpendicularDistance3_fallback sample_platform ?T ?S ?T = flt 1"
    by (simp add: fallback_agree ComputePerpendicularDistance5_fallback_def sample_raw_target
        fp_isnan_def is_nan_def flt_def)
  have h0: "fp_le (fp_abs (ComputePerpendicularDistance5_fallback sample_platform ?S ?T ?S))
              FLT_EPSILON"
    unfolding f0
    by (simp add: fp_le_def fp_abs_def FLT_EPSILON_def flt_dbl_simps ieee_le_def is_nan_def
        is_inf_def)
  have h1: "fp_le (fp_abs (fp_sub sample_platform
              (ComputePerpendicularDistance3_fallback sample_platform ?T ?S ?T) (dbl 1)))
              FLT_EPSILON"
    unfolding f1 by (simp add: fp_defs ieee_defs sample_fields)
  from sample_rounding have laws: "rounding_monotone sample_platform" "rounding_exact sample_platform"
    by simp_all
  from ratio_snapping [OF laws, of ?S ?S ?T] h0
  have a: "ComputePerpendicularDistance5_ratio sample_platform ?S ?T ?S = flt 0 \<and>
           ComputePerpendicularDistance5_nearest sample_platform ?S ?T ?S = Inr ?S"
    by blast
  from ratio_snapping [OF laws, of ?T ?S ?T] h1
  have b: "ComputePerpendicularDistance3_ratio sample_platform ?T ?S ?T = flt 1 \<and>
           ComputePerpendicularDistance3_nearest sample_platform ?T ?S ?T = Inr ?T"
    by blast
  from laws h0 h1 a b show ?thesis by blast
qed

section \<open>Symmetry of the distances\<close>

lemma rounding_oddD: "rounding_odd pf \<Longrightarrow> q \<noteq> 0 \<Longrightarrow> rnd pf t (- q) = ieee_neg (rnd pf t q)"
  unfolding rounding_odd_def by blast

lemma ieee_neg_neg: "ieee_neg (ieee_neg a) = a"
  by (cases a) auto

lemma is_neg_neg: "\<not> is_nan a \<Longrightarrow> is_neg (ieee_neg a) = (\<not> is_neg a)"
  by (cases a) (auto simp: is_nan_def)

lemma neg_preserves:
  "is_nan (ieee_neg a) = is_nan a" "is_inf (ieee_neg a) = is_inf a"
  "is_zero (ieee_neg a) = is_zero a" "rat_of (ieee_neg a) = - rat_of a"
  by (cases a; auto simp: is_nan_def is_inf_def is_zero_def)+

lemma neg_signed: "ieee_neg (signed_zero s) = signed_zero (\<not> s)"
  "ieee_neg (signed_inf s) = signed_inf (\<not> s)"
  by (simp_all add: signed_zero_def signed_inf_def)

lemma ieee_mul_neg:
  assumes "\<And>q. q \<noteq> 0 \<Longrightarrow> r (- q) = ieee_neg (r q)"
  shows "ieee_mul r (ieee_neg a) b = ieee_neg (ieee_mul r a b)"
proof (cases "is_nan a \<or> is_nan b")
  case True
  then show ?thesis by (auto simp: ieee_mul_def neg_preserves is_nan_def)
next
  case False
  then have s: "is_neg (ieee_neg a) = (\<not> is_neg a)" by (simp add: is_neg_neg)
  show ?thesis
    using False assms [of "rat_of a * rat_of b"]
    by (auto simp: ieee_mul_def neg_preserves neg_signed s)
qed

lemma finite_nonzero: "\<not> is_nan a \<Longrightarrow> \<not> is_inf a \<Longrightarrow> \<not> is_zero a \<Longrightarrow> rat_of a \<noteq> 0"
  by (cases a) (auto simp: is_nan_def is_inf_def is_zero_def)

lemma ieee_div_neg:
  assumes "\<And>q. q \<noteq> 0 \<Longrightarrow> r (- q) = ieee_neg (r q)"
  shows "ieee_div r (ieee_neg a) b = ieee_neg (ieee_div r a b)"
proof (cases "is_nan a \<or> is_nan b")
  case True
  then show ?thesis by (auto simp: ieee_div_def neg_preserves is_nan_def)
next
  case False
  then have s: "is_neg (ieee_neg a) = (\<not> is_neg a)" by (simp add: is_neg_neg)
  show ?thesis
    using False assms [of "rat_of a / rat_of b"] finite_nonzero [of a] finite_nonzero [of b]
    by (auto simp: ieee_div_def neg_preserves neg_signed s)
qed

lemma ieee_conv_neg:
  assumes "\<And>q. q \<noteq> 0 \<Longrightarrow> r (- q) = ieee_neg (r q)"
  shows "ieee_conv r (ieee_neg a) = ieee_neg (ieee_conv r a)"
  using assms by (cases a) (auto simp: ieee_conv_def)

lemma ieee_sub_swap:
  assumes "\<And>q. q \<noteq> 0 \<Longrightarrow> r (- q) = ieee_neg (r q)"
  shows "ieee_sub r b a = ieee_sub r a b \<or> ieee_sub r b a = ieee_neg (ieee_sub r a b)"
proof (cases "is_nan a \<or> is_nan b \<or> is_inf a \<or> is_inf b")
  case True
  then show ?thesis
    by (cases a; cases b) (auto simp: ieee_sub_def ieee_add_def is_nan_def is_inf_def)
next
  case False
  show ?thesis
  proof (cases "rat_of a = rat_of b")
    case True
    with False show ?thesis
      by (auto simp: ieee_sub_def ieee_add_def neg_preserves signed_zero_def)
  next
    case neq: False
    with False assms [of "rat_of a - rat_of b"] show ?thesis
      by (auto simp: ieee_sub_def ieee_add_def neg_preserves)
  qed
qed

lemma same_magnitude_refl: "same_magnitude a a"
  by (simp add: same_magnitude_def)

lemma fp_neg_simps: "ty (fp_neg a) = ty a" "num (fp_neg a) = ieee_neg (num a)"
  by (simp_all add: fp_neg_def)

lemma fp_sub_swap:
  "rounding_odd pf \<Longrightarrow> same_magnitude (fp_sub pf a b) (fp_sub pf b a)"
proof -
  assume odd: "rounding_odd pf"
  let ?t = "usual (ty a) (ty b)"
  have t: "usual (ty b) (ty a) = ?t" by (auto simp: usual_def)
  from ieee_sub_swap [where r = "rnd pf ?t" and a = "num a" and b = "num b"]
    rounding_oddD [OF odd]
  have "ieee_sub (rnd pf ?t) (num b) (num a) = ieee_sub (rnd pf ?t) (num a) (num b) \<or>
        ieee_sub (rnd pf ?t) (num b) (num a) = ieee_neg (ieee_sub (rnd pf ?t) (num a) (num b))"
    by blast
  then show ?thesis
    by (auto simp: same_magnitude_def fp_sub_def arith_def fp_neg_def t)
qed

lemma fp_mul_neg: "rounding_odd pf \<Longrightarrow> fp_mul pf (fp_neg a) b = fp_neg (fp_mul pf a b)"
proof -
  assume odd: "rounding_odd pf"
  have "\<And>t u v. ieee_mul (rnd pf t) (ieee_neg u) v = ieee_neg (ieee_mul (rnd pf t) u v)"
    by (rule ieee_mul_neg) (rule rounding_oddD [OF odd])
  then show ?thesis by (simp add: fp_mul_def arith_def fp_neg_def)
qed

lemma fp_div_neg: "rounding_odd pf \<Longrightarrow> fp_div pf (fp_neg a) b = fp_neg (fp_div pf a b)"
proof -
  assume odd: "rounding_odd pf"
  have "\<And>t u v. ieee_div (rnd pf t) (ieee_neg u) v = ieee_neg (ieee_div (rnd pf t) u v)"
    by (rule ieee_div_neg) (rule rounding_oddD [OF odd])
  then show ?thesis by (simp add: fp_div_def arith_def fp_neg_def)
qed

lemma to_float_neg: "rounding_odd pf \<Longrightarrow> to_float pf (fp_neg a) = fp_neg (to_float pf a)"
proof -
  assume odd: "rounding_odd pf"
  have "\<And>t u. ieee_conv (rnd pf t) (ieee_neg u) = ieee_neg (ieee_conv (rnd pf t) u)"
    by (rule ieee_conv_neg) (rule rounding_oddD [OF odd])
  then show ?thesis by (simp add: to_float_def fp_neg_def)
qed

lemma same_magnitude_mul:
  "rounding_odd pf \<Longrightarrow> same_magnitude a b \<Longrightarrow> same_magnitude (fp_mul pf a c) (fp_mul pf b c)"
  by (auto simp: same_magnitude_def fp_mul_neg)

lemma same_magnitude_div:
  "rounding_odd pf \<Longrightarrow> same_magnitude a b \<Longrightarrow> same_magnitude (fp_div pf a c) (fp_div pf b c)"
  by (auto simp: same_magnitude_def fp_div_neg)

lemma same_magnitude_to_float:
  "rounding_odd pf \<Longrightarrow> same_magnitude a b \<Longrightarrow> same_magnitude (to_float pf a) (to_float pf b)"
  by (auto simp: same_magnitude_def to_float_neg)

lemma fp_neg_neg: "fp_neg (fp_neg a) = a"
  by (simp add: fp_neg_def ieee_neg_neg)

lemma same_magnitude_square:
  "rounding_odd pf \<Longrightarrow> same_magnitude a b \<Longrightarrow> fp_mul pf b b = fp_mul pf a a"
proof -
  assume odd: "rounding_odd pf" and "same_magnitude a b"
  then consider "b = a" | "b = fp_neg a" by (auto simp: same_magnitude_def)
  then show ?thesis
  proof cases
    case 1
    then show ?thesis by simp
  next
    case 2
    have "fp_mul pf (fp_neg a) (fp_neg a) = fp_neg (fp_mul pf a (fp_neg a))"
      by (rule fp_mul_neg [OF odd])
    also have "fp_mul pf a (fp_neg a) = fp_mul pf (fp_neg a) a"
      by (rule fp_mul_commute)
    also have "fp_mul pf (fp_neg a) a = fp_neg (fp_mul pf a a)"
      by (rule fp_mul_neg [OF odd])
    finally show ?thesis by (simp add: 2 fp_neg_neg)
  qed
qed

lemma fp_add_commute: "fp_add pf a b = fp_add pf b a"
  by (simp add: fp_add_def arith_def usual_def ieee_add_commute disj_commute)

lemma same_magnitude_sin:
  "libm_symmetric pf \<Longrightarrow> same_magnitude a b \<Longrightarrow>
   same_magnitude (c_call pf c_sin a) (c_call pf c_sin b)"
  by (auto simp: same_magnitude_def libm_symmetric_def c_call_def fp_neg_def Let_def)

lemma same_magnitude_pow:
  "libm_symmetric pf \<Longrightarrow> same_magnitude a b \<Longrightarrow>
   std_call2 pf c_pow b (dbl 2) = std_call2 pf c_pow a (dbl 2)"
  by (auto simp: same_magnitude_def libm_symmetric_def std_call2_def fp_neg_def flt_dbl_simps)

lemma asserts_swap:
  "BOOST_ASSERT pf a (BOOST_ASSERT pf b (BOOST_ASSERT pf c (BOOST_ASSERT pf d m))) =
   BOOST_ASSERT pf c (BOOST_ASSERT pf d (BOOST_ASSERT pf a (BOOST_ASSERT pf b m)))"
  by (simp add: BOOST_ASSERT_def)

lemma euclidean_symmetric:
  assumes odd: "rounding_odd pf"
  shows "ApproximateEuclideanDistance4 pf lat1 lon1 lat2 lon2 =
         ApproximateEuclideanDistance4 pf lat2 lon2 lat1 lon1"
proof -
  define RAD where
    "RAD = to_float pf (double_literal pf (17453292519943295769236907684886 / 10 ^ 33))"
  define fl where "fl = (\<lambda>w :: 32 word. to_float pf (fp_mul pf (int_div_fp pf (sint w) (precision pf)) RAD))"
  define xv where "xv = (\<lambda>la1 lo1 la2 lo2. to_float pf
                       (fp_mul pf (fp_sub pf (fl lo2) (fl lo1))
                          (c_call pf c_cos (fp_div pf (fp_add pf (fl la1) (fl la2)) (dbl 2)))))"
  define yv where "yv = (\<lambda>la1 la2. to_float pf (fp_sub pf (fl la2) (fl la1)))"
  have x: "same_magnitude (xv lat1 lon1 lat2 lon2) (xv lat2 lon2 lat1 lon1)"
    unfolding xv_def fp_add_commute [of pf "fl lat2" "fl lat1"]
    by (intro same_magnitude_to_float same_magnitude_mul fp_sub_swap odd)
  have y: "same_magnitude (yv lat1 lat2) (yv lat2 lat1)"
    unfolding yv_def by (intro same_magnitude_to_float fp_sub_swap odd)
  have body: "fp_add pf (fp_mul pf (xv lat2 lon2 lat1 lon1) (xv lat2 lon2 lat1 lon1))
                  (fp_mul pf (yv lat2 lat1) (yv lat2 lat1)) =
              fp_add pf (fp_mul pf (xv lat1 lon1 lat2 lon2) (xv lat1 lon1 lat2 lon2))
                  (fp_mul pf (yv lat1 lat2) (yv lat1 lat2))"
    by (simp add: same_magnitude_square [OF odd x] same_magnitude_square [OF odd y])
  have unf: "\<And>la1 lo1 la2 lo2. ApproximateEuclideanDistance4 pf la1 lo1 la2 lo2 =
     BOOST_ASSERT pf (la1 \<noteq> int_min) (
     BOOST_ASSERT pf (lo1 \<noteq> int_min) (
     BOOST_ASSERT pf (la2 \<noteq> int_min) (
     BOOST_ASSERT pf (lo2 \<noteq> int_min) (
       Inr (to_float pf
                 (fp_mul pf
                    (c_call pf c_sqrt
                       (fp_add pf (fp_mul pf (xv la1 lo1 la2 lo2) (xv la1 lo1 la2 lo2))
                          (fp_mul pf (yv la1 la2) (yv la1 la2))))
                    (to_float pf (double_literal pf (6372797560856 / 10 ^ 6)))))))))"
    by (simp add: ApproximateEuclideanDistance4_def Let_def xv_def yv_def fl_def RAD_def)
  show ?thesis
    unfolding unf body by (rule asserts_swap)
qed

lemma haversine_symmetric:
  assumes odd: "rounding_odd pf" and sym: "libm_symmetric pf"
  shows "ApproximateDistance4 pf lat1 lon1 lat2 lon2 = ApproximateDistance4 pf lat2 lon2 lat1 lon1"
proof -
  define RAD where "RAD = double_literal pf (17453292519943295769236907684886 / 10 ^ 33)"
  define dl where "dl = (\<lambda>w :: 32 word. fp_mul pf (to_double (int_div_fp pf (sint w) (precision pf))) RAD)"
  define hs where "hs = (\<lambda>u v. std_call2 pf c_pow
                          (c_call pf c_sin (fp_div pf (fp_sub pf (dl u) (dl v)) (dbl 2))) (dbl 2))"
  define aH where "aH = (\<lambda>la1 lo1 la2 lo2. fp_add pf (hs la1 la2)
                     (fp_mul pf (fp_mul pf (c_call pf c_cos (dl la1)) (c_call pf c_cos (dl la2)))
                        (hs lo1 lo2)))"
  have hs: "\<And>u v. hs v u = hs u v"
    unfolding hs_def
    by (intro same_magnitude_pow same_magnitude_sin same_magnitude_div fp_sub_swap odd sym)
  have aH: "aH lat2 lon2 lat1 lon1 = aH lat1 lon1 lat2 lon2"
    unfolding aH_def hs [of lat1 lat2] hs [of lon1 lon2]
    by (simp add: fp_mul_commute [of pf "c_call pf c_cos (dl lat2)"])
  have unf: "\<And>la1 lo1 la2 lo2. ApproximateDistance4 pf la1 lo1 la2 lo2 =
     BOOST_ASSERT pf (la1 \<noteq> int_min) (
     BOOST_ASSERT pf (lo1 \<noteq> int_min) (
     BOOST_ASSERT pf (la2 \<noteq> int_min) (
     BOOST_ASSERT pf (lo2 \<noteq> int_min) (
       Inr (fp_mul pf (double_literal pf (6372797560856 / 10 ^ 6))
              (fp_mul pf (dbl 2)
                     (std_call2 pf c_atan2 (c_call pf c_sqrt (aH la1 lo1 la2 lo2))
                        (c_call pf c_sqrt (fp_sub pf (dbl 1) (aH la1 lo1 la2 lo2))))))))))"
    by (simp add: ApproximateDistance4_def Let_def aH_def hs_def dl_def RAD_def)
  show ?thesis
    unfolding unf aH by (rule asserts_swap)
qed

text \<open>
  Claim C8. On a platform whose rounding commutes with negation and whose library has an
  odd sine and an even square, both point-to-point distances are symmetric in their
  arguments (equal results, failures included).
\<close>

theorem distances_symmetric:
  "rounding_odd pf \<Longrightarrow> libm_symmetric pf \<Longrightarrow>
   ApproximateDistance pf a b = ApproximateDistance pf b a \<and>
   ApproximateEuclideanDistance pf a b = ApproximateEuclideanDistance pf b a"
  using haversine_symmetric [of pf "lat a" "lon a" "lat b" "lon b"]
    euclidean_symmetric [of pf "lat a" "lon a" "lat b" "lon b"]
  by (simp add: ApproximateDistance_def ApproximateEuclideanDistance_def)

lemma sample_sin_odd: "sample_sin (ieee_neg a) = ieee_neg (sample_sin a)"
proof (cases "is_nan a")
  case True
  then show ?thesis by (simp add: is_nan_def sample_sin_def sample_sin_abs_def)
next
  case False
  then show ?thesis
    by (cases "is_neg a") (simp_all add: sample_sin_def is_neg_neg ieee_neg_neg)
qed

lemma sample_pow_even: "sample_pow (ieee_neg a) (Fin 2) = sample_pow a (Fin 2)"
proof -
  have odd: "\<And>q :: rat. q \<noteq> 0 \<Longrightarrow> Fin (- q) = ieee_neg (Fin q)" by simp
  have "ieee_mul Fin (ieee_neg a) (ieee_neg a) = ieee_neg (ieee_mul Fin a (ieee_neg a))"
    by (rule ieee_mul_neg [where r = Fin]) (rule odd)
  also have "ieee_mul Fin a (ieee_neg a) = ieee_mul Fin (ieee_neg a) a"
    by (rule ieee_mul_commute)
  also have "ieee_mul Fin (ieee_neg a) a = ieee_neg (ieee_mul Fin a a)"
    by (rule ieee_mul_neg [where r = Fin]) (rule odd)
  finally show ?thesis by (simp add: sample_pow_def ieee_neg_neg)
qed

lemma sample_symmetric: "libm_symmetric sample_platform"
  by (simp add: libm_symmetric_def sample_fields sample_sin_odd sample_pow_even)

theorem distances_symmetric_witness:
  "rounding_odd sample_platform \<and> libm_symmetric sample_platform \<and>
   ApproximateEuclideanDistance sample_platform \<lparr>lat = 0, lon = 0\<rparr> \<lparr>lat = 0, lon = 1000000\<rparr> =
     Inr (FP Single (Fin (233257932922146419 / 2097152000000))) \<and>
   ApproximateDistance sample_platform \<lparr>lat = 0, lon = 0\<rparr> \<lparr>lat = 0, lon = 1000000\<rparr> =
   ApproximateDistance sample_platform \<lparr>lat = 0, lon = 1000000\<rparr> \<lparr>lat = 0, lon = 0\<rparr>"
proof -
  from sample_rounding have odd: "rounding_odd sample_platform" by simp
  from distances_symmetric [OF odd sample_symmetric, of "\<lparr>lat = 0, lon = 0\<rparr>"
      "\<lparr>lat = 0, lon = 1000000\<rparr>"] sample_distance_2 odd sample_symmetric
  show ?thesis by simp
qed

section \<open>The ordering-only approximation at two inputs\<close>

text \<open>
  On every platform, a ratio that is first computed as a not-a-number becomes 0 or 1 and
  then passes neither of the strict tests: the differences are those to the foot of the
  perpendicular, whichever of the two values the fallback chose.
\<close>

lemma ordered_nan_selects_foot:
  assumes "fp_isnan (snd (snd (OrderedPerpendicularDistanceApproximation_raw pf P S T)))"
  shows "OrderedPerpendicularDistanceApproximation_delta pf P S T =
         and_then (defined (to_int (int_sub_fp pf (sint (lon P))
                     (fp_mul pf (fst (snd (OrderedPerpendicularDistanceApproximation_raw pf P S T)))
                        (precision pf))))) (\<lambda>dx.
         and_then (defined (to_int (int_sub_fp pf (sint (lat P))
                     (fp_mul pf
                        (y2lat pf (fst (OrderedPerpendicularDistanceApproximation_raw pf P S T)))
                        (precision pf))))) (\<lambda>dy.
         Inr (dx, dy)))"
proof -
  from assms have "OrderedPerpendicularDistanceApproximation_ratio pf P S T = flt 0 \<or>
      OrderedPerpendicularDistanceApproximation_ratio pf P S T = flt 1"
    by (simp add: OrderedPerpendicularDistanceApproximation_ratio_def)
  then show ?thesis
    by (auto simp: OrderedPerpendicularDistanceApproximation_delta_def Let_def fp_lt_def fp_gt_def
        ieee_lt_def is_nan_def is_inf_def flt_dbl_simps)
qed

lemma sample_ordered_raw_meridian:
  "OrderedPerpendicularDistanceApproximation_raw sample_platform \<lparr>lat = 50000000, lon = 10000\<rparr>
     \<lparr>lat = 10000000, lon = 0\<rparr> \<lparr>lat = 20000000, lon = 0\<rparr> =
   (FP Single (Fin 50), FP Single (Fin 0), FP Single NaN)"
  unfolding OrderedPerpendicularDistanceApproximation_raw_def Let_def
  by (simp add: fp_defs ieee_defs sample_eval)

lemma sample_ordered_ratio_meridian:
  "OrderedPerpendicularDistanceApproximation_ratio sample_platform
     \<lparr>lat = 50000000, lon = 10000\<rparr> \<lparr>lat = 10000000, lon = 0\<rparr> \<lparr>lat = 20000000, lon = 0\<rparr> =
   flt 0"
  by (simp add: OrderedPerpendicularDistanceApproximation_ratio_def sample_ordered_raw_meridian
      fp_isnan_def is_nan_def coordinate_eq_def)

lemma sample_ordered_delta_meridian:
  "OrderedPerpendicularDistanceApproximation_delta sample_platform
     \<lparr>lat = 50000000, lon = 10000\<rparr> \<lparr>lat = 10000000, lon = 0\<rparr> \<lparr>lat = 20000000, lon = 0\<rparr> =
   Inr (10000, 0)"
  unfolding OrderedPerpendicularDistanceApproximation_delta_def Let_def
    sample_ordered_ratio_meridian sample_ordered_raw_meridian
  by (simp add: fp_defs ieee_defs err_defs sample_fields)

lemma sample_sqrt_square: "sample_sqrt (Fin 100000000) = Fin 10000"
  by (simp add: sample_sqrt_def sqrt_bits_numeral)

lemma sample_ordered_meridian:
  "OrderedPerpendicularDistanceApproximation sample_platform
     \<lparr>lat = 50000000, lon = 10000\<rparr> \<lparr>lat = 10000000, lon = 0\<rparr> \<lparr>lat = 20000000, lon = 0\<rparr> =
   Inr 10000"
  unfolding OrderedPerpendicularDistanceApproximation_def sample_ordered_delta_meridian
  by (simp add: fp_defs ieee_defs err_defs sample_fields sample_sqrt_square)

lemma sample_nearest_meridian:
  "ComputePerpendicularDistance5_nearest sample_platform \<lparr>lat = 10000000, lon = 0\<rparr>
     \<lparr>lat = 20000000, lon = 0\<rparr> \<lparr>lat = 50000000, lon = 10000\<rparr> = Inr \<lparr>lat = 10000000, lon = 0\<rparr>"
proof -
  have "ComputePerpendicularDistance5_ratio sample_platform \<lparr>lat = 10000000, lon = 0\<rparr>
     \<lparr>lat = 20000000, lon = 0\<rparr> \<lparr>lat = 50000000, lon = 10000\<rparr> = flt 0"
    by (simp add: ComputePerpendicularDistance5_ratio_def sample_raw_nan fp_isnan_def is_nan_def)
  then show ?thesis
    by (simp add: ComputePerpendicularDistance5_nearest_def Let_def fp_le_def ieee_le_def
        is_nan_def is_inf_def flt_dbl_simps)
qed

lemma sample_ordered_raw_far:
  "OrderedPerpendicularDistanceApproximation_raw sample_platform
     \<lparr>lat = 10000000, lon = 21000000\<rparr> \<lparr>lat = 10000000, lon = 20000000\<rparr>
     \<lparr>lat = 10000000, lon = 20000000\<rparr> =
   (FP Single (Fin 10), FP Single (Fin 21), FP Single PInf)"
  unfolding OrderedPerpendicularDistanceApproximation_raw_def Let_def
  by (simp add: fp_defs ieee_defs sample_eval)

lemma sample_ordered_delta_far:
  "OrderedPerpendicularDistanceApproximation_delta sample_platform
     \<lparr>lat = 10000000, lon = 21000000\<rparr> \<lparr>lat = 10000000, lon = 20000000\<rparr>
     \<lparr>lat = 10000000, lon = 20000000\<rparr> = Inr (1000000, 0)"
  unfolding OrderedPerpendicularDistanceApproximation_delta_def Let_def
    OrderedPerpendicularDistanceApproximation_ratio_def sample_ordered_raw_far
  by (simp add: fp_defs ieee_defs err_defs sample_fields)

text \<open>
  Claim C6 fails on the code, at two inputs evaluated at the sample platform.

  First, the segment from \<open>(10, 0)\<close> to \<open>(20, 0)\<close> degrees on the prime meridian and the
  query point \<open>(50, 0.01)\<close>. Both longitudes of the segment are 0, the auxiliary \<open>nY\<close> is
  \<open>0 / 0\<close> and the ratio a not-a-number; the fallback sets it to 0. The tests \<open>ratio < 0.f\<close>
  and \<open>ratio > 1.f\<close> are strict, so the ratio 0 selects the foot of the perpendicular on
  the supporting line, \<open>(50, 0)\<close>, and the result is 10000, where the claim (a ratio of at
  most 0 selects the source) gives the distance to the source, 40000001, and where
  \<open>ComputePerpendicularDistance\<close> selects the source at the same input.

  Second, the segment from \<open>(10, 20)\<close> to itself and the query point \<open>(10, 21)\<close>: the ratio
  is an infinity, an endpoint is selected, \<open>dx\<close> is 1000000, and \<open>dx * dx\<close> overflows the
  \<open>int\<close> it is computed in: the behaviour is undefined, where the claim gives 1000000.
\<close>

theorem ordered_approximation_fails:
  "OrderedPerpendicularDistanceApproximation_ratio sample_platform
     \<lparr>lat = 50000000, lon = 10000\<rparr> \<lparr>lat = 10000000, lon = 0\<rparr> \<lparr>lat = 20000000, lon = 0\<rparr> =
     flt 0 \<and>
   OrderedPerpendicularDistanceApproximation_delta sample_platform
     \<lparr>lat = 50000000, lon = 10000\<rparr> \<lparr>lat = 10000000, lon = 0\<rparr> \<lparr>lat = 20000000, lon = 0\<rparr> =
     Inr (10000, 0) \<and>
   OrderedPerpendicularDistanceApproximation sample_platform
     \<lparr>lat = 50000000, lon = 10000\<rparr> \<lparr>lat = 10000000, lon = 0\<rparr> \<lparr>lat = 20000000, lon = 0\<rparr> =
     Inr 10000 \<and>
   ComputePerpendicularDistance5_nearest sample_platform \<lparr>lat = 10000000, lon = 0\<rparr>
     \<lparr>lat = 20000000, lon = 0\<rparr> \<lparr>lat = 50000000, lon = 10000\<rparr> =
     Inr \<lparr>lat = 10000000, lon = 0\<rparr> \<and>
   OrderedPerpendicularDistanceApproximation_delta sample_platform
     \<lparr>lat = 10000000, lon = 21000000\<rparr> \<lparr>lat = 10000000, lon = 20000000\<rparr>
     \<lparr>lat = 10000000, lon = 20000000\<rparr> = Inr (1000000, 0) \<and>
   OrderedPerpendicularDistanceApproximation sample_platform
     \<lparr>lat = 10000000, lon = 21000000\<rparr> \<lparr>lat = 10000000, lon = 20000000\<rparr>
     \<lparr>lat = 10000000, lon = 20000000\<rparr> = Inl UndefinedBehaviour"
proof -
  have far: "OrderedPerpendicularDistanceApproximation sample_platform
     \<lparr>lat = 10000000, lon = 21000000\<rparr> \<lparr>lat = 10000000, lon = 20000000\<rparr>
     \<lparr>lat = 10000000, lon = 20000000\<rparr> = Inl UndefinedBehaviour"
    unfolding OrderedPerpendicularDistanceApproximation_def sample_ordered_delta_far
    by (simp add: err_defs)
  from sample_ordered_ratio_meridian sample_ordered_delta_meridian sample_ordered_meridian
    sample_nearest_meridian sample_ordered_delta_far far
  show ?thesis by blast
qed

end
